theory Spec2Isabelle
  imports Complex_Main "HOL-Library.Char_ord" "HOL-Library.List_Lexorder" "HOL-Library.Multiset"
begin

section \<open>Errors, pointers and outcomes\<close>

text \<open>
  Go errors are values with a dynamic type. Three kinds matter in the tasks below:
  an \<open>awserr.Error\<close> (it carries a provider error code and a message), the two validation
  errors of the task framework, and a plain error built by \<open>fmt.Errorf\<close>. A plain error
  keeps the error it was formatted from (with the verb \<open>%v\<close> or \<open>%w\<close>) as its cause. It
  has no method but \<open>Error\<close>, so a type assertion to \<open>awserr.Error\<close> on a plain error
  fails, whatever its cause. The text of a plain error is the constant part of its format;
  the values formatted into it are left out.
\<close>

text \<open>
  Modelled from the spec: \<open>fi.RequiredField\<close> and \<open>fi.CannotChangeField\<close> are declared
  outside the source files considered here; the error taxonomy of the specification names
  them as the creation-time and the update-time validation failure, each carrying the name
  of the field.
\<close>

datatype err =
    AwsError string string
  | RequiredField string
  | CannotChangeField string
  | Errorf string "err option"

text \<open>\<open>err.(awserr.Error)\<close>: the type assertion, giving the error code when it succeeds.\<close>

fun as_awserr :: "err \<Rightarrow> string option" where
  "as_awserr (AwsError code msg) = Some code"
| "as_awserr (RequiredField f) = None"
| "as_awserr (CannotChangeField f) = None"
| "as_awserr (Errorf msg cause) = None"

text \<open>
  A Go call either returns or panics (a nil pointer dereference, an index out of range).
  A panic is not a returned error, so it is a result of its own.
\<close>

datatype 'a outcome = Panic | Return 'a

text \<open>\<open>fi.ValueOf\<close> on a \<open>*string\<close>: the empty string for nil.\<close>

definition ValueOf :: "string option \<Rightarrow> string" where
  "ValueOf p = (case p of None \<Rightarrow> [] | Some v \<Rightarrow> v)"

text \<open>A slice is nil or holds elements; \<open>len\<close> and \<open>range\<close> treat nil as empty.\<close>

definition elems :: "'a list option \<Rightarrow> 'a list" where
  "elems s = (case s of None \<Rightarrow> [] | Some xs \<Rightarrow> xs)"

section \<open>The network load balancer task\<close>

text \<open>
  Modelled from the spec: the types \<open>Subnet\<close>, \<open>SubnetMapping\<close>, \<open>TargetGroup\<close> and
  \<open>NetworkLoadBalancerAccessLog\<close> are declared outside the source files considered here;
  the tasks and the specification name their fields. The records hold
  the fields the load balancer task reads: a subnet's \<open>ID\<close>, \<open>Name\<close> and \<open>ShortName\<close>, a
  mapping's subnet and its two address settings, a target group's \<open>Name\<close> and \<open>ARN\<close>, the
  access log's three settings. Pointer fields are options.
\<close>

record Subnet =
  sn_ID :: "string option"
  sn_Name :: "string option"
  sn_ShortName :: "string option"

record SubnetMapping =
  sm_Subnet :: "Subnet option"
  sm_PrivateIPv4Address :: "string option"
  sm_AllocationID :: "string option"

record TargetGroup =
  tg_Name :: "string option"
  tg_ARN :: "string option"

record NetworkLoadBalancerAccessLog =
  al_Enabled :: "bool option"
  al_S3BucketName :: "string option"
  al_S3BucketPrefix :: "string option"

text \<open>
  The listener and the load balancer task, as the source declares them. The elements of
  the slices are taken to be non-nil pointers and are the records themselves; a nil slice
  is \<open>None\<close>. The \<open>VPC\<close> is a pointer to a task of which only the ID is read. The
  lifecycle plays no part in the operations below and is left out.
\<close>

record NetworkLoadBalancerListener =
  Port :: int
  TargetGroupName :: string
  SSLCertificateID :: string
  SSLPolicy :: string

record NetworkLoadBalancer =
  Name :: "string option"
  LoadBalancerName :: "string option"
  CLBName :: "string option"
  DNSName :: "string option"
  HostedZoneId :: "string option"
  SubnetMappings :: "SubnetMapping list option"
  Listeners :: "NetworkLoadBalancerListener list option"
  Scheme :: "string option"
  CrossZoneLoadBalancing :: "bool option"
  IpAddressType :: "string option"
  Tags :: "(string \<times> string) list option"
  ForAPIServer :: bool
  Type :: "string option"
  VPC :: "string option option"
  TargetGroups :: "TargetGroup list option"
  AccessLog :: "NetworkLoadBalancerAccessLog option"

subsection \<open>CheckChanges\<close>

text \<open>
  The map \<open>expectedSubnets\<close> of the update branch: from a subnet ID to the address setting
  expected for it, a pointer that may be nil. A later mapping of the same ID overwrites
  an earlier one. \<open>*s.Subnet.ID\<close> panics on a nil subnet or a nil ID.
\<close>

fun expectedSubnets :: "SubnetMapping list \<Rightarrow> (string \<rightharpoonup> string option)
    \<Rightarrow> (string \<rightharpoonup> string option) outcome" where
  "expectedSubnets [] m = Return m"
| "expectedSubnets (s # ss) m =
     (case sm_Subnet s of
        None \<Rightarrow> Panic
      | Some sn \<Rightarrow>
          (case sn_ID sn of
             None \<Rightarrow> Panic
           | Some i \<Rightarrow>
               if sm_AllocationID s \<noteq> None then expectedSubnets ss (m(i \<mapsto> sm_AllocationID s))
               else if sm_PrivateIPv4Address s \<noteq> None
                 then expectedSubnets ss (m(i \<mapsto> sm_PrivateIPv4Address s))
               else expectedSubnets ss (m(i \<mapsto> None))))"

definition detaching_msg :: string where
  "detaching_msg = ''network load balancers do not support detaching subnets''"

definition modifying_msg :: string where
  "modifying_msg = ''network load balancers do not support modifying address settings''"

text \<open>The loop over the actual subnet mappings: the first mapping that fails ends it.\<close>

fun checkActualSubnets :: "(string \<rightharpoonup> string option) \<Rightarrow> SubnetMapping list
    \<Rightarrow> err option outcome" where
  "checkActualSubnets m [] = Return None"
| "checkActualSubnets m (s # ss) =
     (case sm_Subnet s of
        None \<Rightarrow> Panic
      | Some sn \<Rightarrow>
          (case sn_ID sn of
             None \<Rightarrow> Panic
           | Some i \<Rightarrow>
               (case m i of
                  None \<Rightarrow> Return (Some (Errorf detaching_msg None))
                | Some eIP \<Rightarrow>
                    if ValueOf eIP \<noteq> ValueOf (sm_PrivateIPv4Address s)
                       \<or> ValueOf eIP \<noteq> ValueOf (sm_AllocationID s)
                    then Return (Some (Errorf modifying_msg None))
                    else checkActualSubnets m ss)))"

text \<open>
  \<open>CheckChanges a e changes\<close>: \<open>a\<close> is the actual task, nil when the load balancer does
  not exist yet. The result is the returned error, \<open>None\<close> for nil. On creation the test
  of \<open>CrossZoneLoadBalancing\<close> for nil sits inside the test of the same pointer for
  non-nil; the two nested tests are the conjunction below.
\<close>

definition CheckChanges :: "NetworkLoadBalancer option \<Rightarrow> NetworkLoadBalancer
    \<Rightarrow> NetworkLoadBalancer \<Rightarrow> err option outcome" where
  "CheckChanges a e changes =
     (case a of
        None \<Rightarrow>
          if ValueOf (Name e) = [] then Return (Some (RequiredField ''Name''))
          else if length (elems (SubnetMappings e)) = 0
            then Return (Some (RequiredField ''SubnetMappings''))
          else if CrossZoneLoadBalancing e \<noteq> None \<and> CrossZoneLoadBalancing e = None
            then Return (Some (RequiredField ''CrossZoneLoadBalancing''))
          else
            (case AccessLog e of
               None \<Rightarrow> Return None
             | Some al \<Rightarrow>
                 (case al_Enabled al of
                    None \<Rightarrow> Return (Some (RequiredField ''Accesslog.Enabled''))
                  | Some en \<Rightarrow>
                      if en \<and> al_S3BucketName al = None
                      then Return (Some (RequiredField ''Accesslog.S3Bucket''))
                      else Return None))
      | Some act \<Rightarrow>
          if length (elems (SubnetMappings changes)) > 0 then
            (case expectedSubnets (elems (SubnetMappings e)) Map.empty of
               Panic \<Rightarrow> Panic
             | Return m \<Rightarrow> checkActualSubnets m (elems (SubnetMappings act)))
          else Return None)"

subsection \<open>Normalize\<close>

text \<open>
  Modelled from the spec: \<open>OrderSubnetMappingsByName\<close> and \<open>OrderTargetGroupsByName\<close> are
  declared outside the source files considered here; following their names and the
  specification ("sort canonically (e.g., by name)") they compare the subnet's name and
  the target group's name, read with \<open>fi.ValueOf\<close>.
\<close>

definition subnetMappingName :: "SubnetMapping \<Rightarrow> string" where
  "subnetMappingName s = (case sm_Subnet s of None \<Rightarrow> [] | Some sn \<Rightarrow> ValueOf (sn_Name sn))"

definition targetGroupName :: "TargetGroup \<Rightarrow> string" where
  "targetGroupName tg = ValueOf (tg_Name tg)"

text \<open>
  \<open>sort.Stable\<close> sorts in ascending order of the \<open>Less\<close> method and keeps the original
  order of equal elements; with \<open>Less\<close> the order of a key this is \<open>sort_key\<close>, the stable
  insertion sort. Strings compare bytewise, the order of \<open>char list\<close>. A nil slice stays
  nil. \<open>OrderListenersByPort\<close> compares the ports. Comparing two subnet mappings
  dereferences the subnet of each, and sorting two or more elements compares each of them
  at least once, so a nil subnet among two or more mappings panics.
\<close>

definition sortSubnetMappingsByName :: "SubnetMapping list option \<Rightarrow> SubnetMapping list option outcome" where
  "sortSubnetMappingsByName s =
     (case s of
        None \<Rightarrow> Return None
      | Some xs \<Rightarrow>
          if 2 \<le> length xs \<and> (\<exists>x \<in> set xs. sm_Subnet x = None) then Panic
          else Return (Some (sort_key subnetMappingName xs)))"

definition sortListenersByPort :: "NetworkLoadBalancerListener list option
    \<Rightarrow> NetworkLoadBalancerListener list option" where
  "sortListenersByPort s = map_option (sort_key Port) s"

definition sortTargetGroupsByName :: "TargetGroup list option \<Rightarrow> TargetGroup list option" where
  "sortTargetGroupsByName s = map_option (sort_key targetGroupName) s"

text \<open>
  The subnets of the cluster specification, \<open>c.T.Cluster.Spec.Networking.Subnets\<close>, with
  the two fields \<open>Normalize\<close> reads.
\<close>

record ClusterSubnetSpec =
  cs_Name :: string
  cs_IPv6CIDR :: string

fun scanClusterSubnets :: "ClusterSubnetSpec list \<Rightarrow> SubnetMapping \<Rightarrow> string option
    \<Rightarrow> string option outcome" where
  "scanClusterSubnets [] subnet ip = Return ip"
| "scanClusterSubnets (clusterSubnet # rest) subnet ip =
     (case sm_Subnet subnet of
        None \<Rightarrow> Panic
      | Some sn \<Rightarrow>
          scanClusterSubnets rest subnet
            (if cs_Name clusterSubnet = ValueOf (sn_ShortName sn) \<and> cs_IPv6CIDR clusterSubnet = []
             then Some ''ipv4'' else ip))"

fun scanSubnetMappings :: "ClusterSubnetSpec list \<Rightarrow> SubnetMapping list \<Rightarrow> string option
    \<Rightarrow> string option outcome" where
  "scanSubnetMappings cluster [] ip = Return ip"
| "scanSubnetMappings cluster (subnet # rest) ip =
     (case scanClusterSubnets cluster subnet ip of
        Panic \<Rightarrow> Panic
      | Return ip' \<Rightarrow> scanSubnetMappings cluster rest ip')"

text \<open>\<open>Normalize\<close> updates the task in place and returns a nil error: the result is the task.\<close>

definition Normalize :: "ClusterSubnetSpec list \<Rightarrow> NetworkLoadBalancer \<Rightarrow> NetworkLoadBalancer outcome" where
  "Normalize cluster e =
     (case sortSubnetMappingsByName (SubnetMappings e) of
        Panic \<Rightarrow> Panic
      | Return sms \<Rightarrow>
          (case scanSubnetMappings cluster (elems sms) (Some ''dualstack'') of
             Panic \<Rightarrow> Panic
           | Return ip \<Rightarrow>
               Return (e \<lparr> SubnetMappings := sms,
                           Listeners := sortListenersByPort (Listeners e),
                           TargetGroups := sortTargetGroupsByName (TargetGroups e),
                           IpAddressType := ip \<rparr>)))"

text \<open>
  Two tasks hold the same logical sets of sub-resources when each of the three slices of
  one is a reordering of the slice of the other and all other fields agree.
\<close>

definition same_slice :: "'a list option \<Rightarrow> 'a list option \<Rightarrow> bool" where
  "same_slice s t \<longleftrightarrow> (s = None \<longleftrightarrow> t = None) \<and> mset (elems s) = mset (elems t)"

definition same_sets :: "NetworkLoadBalancer \<Rightarrow> NetworkLoadBalancer \<Rightarrow> bool" where
  "same_sets e1 e2 \<longleftrightarrow>
     same_slice (SubnetMappings e1) (SubnetMappings e2) \<and>
     same_slice (Listeners e1) (Listeners e2) \<and>
     same_slice (TargetGroups e1) (TargetGroups e2) \<and>
     e2 = e1 \<lparr> SubnetMappings := SubnetMappings e2, Listeners := Listeners e2,
               TargetGroups := TargetGroups e2 \<rparr>"

text \<open>The sort keys of a task's sub-resources are pairwise distinct.\<close>

definition distinct_keys :: "NetworkLoadBalancer \<Rightarrow> bool" where
  "distinct_keys e \<longleftrightarrow>
     distinct (map subnetMappingName (elems (SubnetMappings e))) \<and>
     distinct (map Port (elems (Listeners e))) \<and>
     distinct (map targetGroupName (elems (TargetGroups e)))"

section \<open>The Scaleway instance task\<close>

text \<open>
  The user data is a pointer to a resource; the resource is modelled by what rendering it
  to bytes gives, an error or the bytes. The load balancer reference plays no part in the
  operations below and is left out.
\<close>

record Instance =
  inst_Name :: "string option"
  inst_Zone :: "string option"
  inst_Role :: "string option"
  inst_CommercialType :: "string option"
  inst_Image :: "string option"
  inst_Tags :: "string list"
  inst_Count :: int
  inst_UserData :: "(err + string) option"

definition Instance_CheckChanges :: "Instance option \<Rightarrow> Instance \<Rightarrow> Instance \<Rightarrow> err option" where
  "Instance_CheckChanges actual expected changes =
     (if actual \<noteq> None then
        (if inst_Name changes \<noteq> None then Some (CannotChangeField ''Name'')
         else if inst_Zone changes \<noteq> None then Some (CannotChangeField ''Zone'')
         else if inst_CommercialType changes \<noteq> None then Some (CannotChangeField ''CommercialType'')
         else if inst_Image changes \<noteq> None then Some (CannotChangeField ''Image'')
         else None)
      else
        (if inst_Name expected = None then Some (RequiredField ''Name'')
         else if inst_Zone expected = None then Some (RequiredField ''Zone'')
         else if inst_CommercialType expected = None then Some (RequiredField ''CommercialType'')
         else if inst_Image expected = None then Some (RequiredField ''Image'')
         else None))"

section \<open>Creation-time validation\<close>

text \<open>
  The fields that creation requires of a load balancer, as \<open>CheckChanges\<close> tests them: a
  non-empty name, at least one subnet mapping and, when an access log is given, its
  \<open>Enabled\<close> flag and, when that flag is true, the bucket name.
\<close>

definition nlb_required_set :: "NetworkLoadBalancer \<Rightarrow> bool" where
  "nlb_required_set e \<longleftrightarrow>
     ValueOf (Name e) \<noteq> [] \<and> elems (SubnetMappings e) \<noteq> [] \<and>
     (case AccessLog e of
        None \<Rightarrow> True
      | Some al \<Rightarrow> al_Enabled al \<noteq> None \<and> (al_Enabled al = Some True \<longrightarrow> al_S3BucketName al \<noteq> None))"

definition instance_required_set :: "Instance \<Rightarrow> bool" where
  "instance_required_set x \<longleftrightarrow>
     inst_Name x \<noteq> None \<and> inst_Zone x \<noteq> None \<and> inst_CommercialType x \<noteq> None \<and> inst_Image x \<noteq> None"

section \<open>Update-time validation\<close>

text \<open>
  The ID of a mapping's subnet, where both pointers are set, and the IDs of a list of
  mappings. A list of mappings is well formed for \<open>CheckChanges\<close> when none of these
  pointers is nil.
\<close>

definition subnetID :: "SubnetMapping \<Rightarrow> string option" where
  "subnetID s = (case sm_Subnet s of None \<Rightarrow> None | Some sn \<Rightarrow> sn_ID sn)"

definition has_ids :: "SubnetMapping list \<Rightarrow> bool" where
  "has_ids ms \<longleftrightarrow> (\<forall>s \<in> set ms. subnetID s \<noteq> None)"

definition subnetIDs :: "SubnetMapping list \<Rightarrow> string list" where
  "subnetIDs ms = List.map_filter subnetID ms"

text \<open>
  The address setting that counts for an expected mapping: its allocation ID when that
  is set, otherwise its private address. For a subnet ID, the setting of the last expected
  mapping with this ID.
\<close>

definition effectiveAddress :: "SubnetMapping \<Rightarrow> string option" where
  "effectiveAddress s =
     (if sm_AllocationID s \<noteq> None then sm_AllocationID s else sm_PrivateIPv4Address s)"

definition expectedAddressOf :: "SubnetMapping list \<Rightarrow> string \<Rightarrow> string option option" where
  "expectedAddressOf ms i =
     (case filter (\<lambda>s. subnetID s = Some i) ms of
        [] \<Rightarrow> None
      | s # ss \<Rightarrow> Some (effectiveAddress (last (s # ss))))"

text \<open>A mapping without address settings: both are nil or empty.\<close>

definition no_address :: "SubnetMapping \<Rightarrow> bool" where
  "no_address s \<longleftrightarrow> ValueOf (sm_AllocationID s) = [] \<and> ValueOf (sm_PrivateIPv4Address s) = []"

text \<open>
  The expected address setting differs from an actual mapping when it is not the value of
  both of the actual mapping's settings.
\<close>

definition address_differs :: "string option \<Rightarrow> SubnetMapping \<Rightarrow> bool" where
  "address_differs eIP s \<longleftrightarrow>
     ValueOf eIP \<noteq> ValueOf (sm_PrivateIPv4Address s) \<or> ValueOf eIP \<noteq> ValueOf (sm_AllocationID s)"

text \<open>
  A delta detaches a subnet when an actual subnet ID is not among the expected ones; it
  modifies an address setting when the expected setting of an actual subnet differs from
  the actual mapping.
\<close>

definition detached :: "SubnetMapping list \<Rightarrow> SubnetMapping list \<Rightarrow> bool" where
  "detached act ex \<longleftrightarrow> (\<exists>i \<in> set (subnetIDs act). i \<notin> set (subnetIDs ex))"

definition address_modified :: "SubnetMapping list \<Rightarrow> SubnetMapping list \<Rightarrow> bool" where
  "address_modified act ex \<longleftrightarrow>
     (\<exists>s \<in> set act.
        case subnetID s of
          None \<Rightarrow> False
        | Some i \<Rightarrow>
            (case expectedAddressOf ex i of
               None \<Rightarrow> False
             | Some eIP \<Rightarrow> address_differs eIP s))"

text \<open>
  The subnets of a delta are plain when no actual mapping carries an address setting and
  no expected mapping of an actual subnet carries one. Expected mappings of new subnets
  are free.
\<close>

definition plain_subnets :: "SubnetMapping list \<Rightarrow> SubnetMapping list \<Rightarrow> bool" where
  "plain_subnets act ex \<longleftrightarrow>
     (\<forall>s \<in> set act. no_address s) \<and>
     (\<forall>s \<in> set ex. subnetID s \<in> subnetID ` set act \<longrightarrow> no_address s)"

section \<open>The AWS cloud\<close>

text \<open>
  What the tasks read of the SDK's types: a load balancer of the \<open>elbv2\<close> service, a
  subnet mapping and a listener of a request or a response, a classic load balancer of
  the \<open>elb\<close> service with its registered instances, and an alias target of \<open>route53\<close>.
\<close>

record elbv2_LoadBalancer =
  lb_LoadBalancerArn :: "string option"
  lb_LoadBalancerName :: "string option"
  lb_DNSName :: "string option"
  lb_CanonicalHostedZoneId :: "string option"
  lb_VpcId :: "string option"

record elbv2_SubnetMapping =
  esm_SubnetId :: "string option"
  esm_AllocationId :: "string option"
  esm_PrivateIPv4Address :: "string option"

record elbv2_Listener =
  el_ListenerArn :: "string option"

record CreateLoadBalancerInput =
  clb_Name :: "string option"
  clb_Scheme :: "string option"
  clb_Type :: "string option"
  clb_IpAddressType :: "string option"
  clb_Tags :: "(string \<times> string) list option"
  clb_SubnetMappings :: "elbv2_SubnetMapping list"

record CreateListenerInput =
  cli_TargetGroupArn :: string
  cli_LoadBalancerArn :: string
  cli_Port :: int
  cli_Certificates :: "string list option"
  cli_Protocol :: string
  cli_SslPolicy :: "string option"

record elb_LoadBalancerDescription =
  elb_LoadBalancerName :: "string option"
  elb_Instances :: "string list"

record route53_AliasTarget =
  alias_DNSName :: "string option"
  alias_HostedZoneId :: "string option"

text \<open>The calls a task makes on the cloud and on the target, in the order it makes them.\<close>

datatype api_call =
    DescribeLoadBalancersPages_call "string list"
  | CreateLoadBalancer_call CreateLoadBalancerInput
  | WaitUntilLoadBalancerAvailable_call string
  | CreateListener_call CreateListenerInput
  | SetIpAddressType_call "string option" "string option"
  | SetSubnets_call string "elbv2_SubnetMapping list"
  | DescribeListeners_call "string option"
  | DeleteListener_call "string option"
  | AddELBV2Tags_call string "(string \<times> string) list option" bool
  | RemoveELBV2Tags_call string "(string \<times> string) list option" bool
  | modifyLoadBalancerAttributes_call string bool
  | FindELBV2ByNameTag_call string
  | FindELBByNameTag_call string

text \<open>
  The cloud is a state of type \<open>'st\<close> and, for each operation, the answer it gives in a
  state and the state it leaves. \<open>DescribeLoadBalancersPages\<close> answers with the pages it
  delivered to the callback and the error it ended with. The tag lookups
  \<open>FindELBV2ByNameTag\<close> and \<open>FindELBByNameTag\<close>, the tag helpers \<open>AddELBV2Tags\<close> and
  \<open>RemoveELBV2Tags\<close> of the target and the method \<open>modifyLoadBalancerAttributes\<close> are
  declared outside the source files considered here, so they are parameters as well.
  Nothing here says what the three helpers do with the cloud: each answers with the error
  it returns and with a flag telling whether it issued a request that changes the cloud,
  and the record of calls keeps the flag with the invocation.
\<close>

record 'st AWSCloud =
  DescribeLoadBalancersPages :: "string list \<Rightarrow> 'st \<Rightarrow> (elbv2_LoadBalancer list list \<times> err option) \<times> 'st"
  CreateLoadBalancer :: "CreateLoadBalancerInput \<Rightarrow> 'st \<Rightarrow> (err + elbv2_LoadBalancer list) \<times> 'st"
  WaitUntilLoadBalancerAvailable :: "string \<Rightarrow> 'st \<Rightarrow> err option \<times> 'st"
  CreateListener :: "CreateListenerInput \<Rightarrow> 'st \<Rightarrow> err option \<times> 'st"
  SetIpAddressType :: "string option \<Rightarrow> string option \<Rightarrow> 'st \<Rightarrow> err option \<times> 'st"
  SetSubnets :: "string \<Rightarrow> elbv2_SubnetMapping list \<Rightarrow> 'st \<Rightarrow> err option \<times> 'st"
  DescribeListeners :: "string option \<Rightarrow> 'st \<Rightarrow> (err + elbv2_Listener list) \<times> 'st"
  DeleteListener :: "string option \<Rightarrow> 'st \<Rightarrow> err option \<times> 'st"
  AddELBV2Tags :: "string \<Rightarrow> (string \<times> string) list option \<Rightarrow> 'st
      \<Rightarrow> (err option \<times> bool) \<times> 'st"
  RemoveELBV2Tags :: "string \<Rightarrow> (string \<times> string) list option \<Rightarrow> 'st
      \<Rightarrow> (err option \<times> bool) \<times> 'st"
  modifyLoadBalancerAttributes :: "NetworkLoadBalancer option \<Rightarrow> NetworkLoadBalancer
      \<Rightarrow> NetworkLoadBalancer \<Rightarrow> string \<Rightarrow> 'st \<Rightarrow> (err option \<times> bool) \<times> 'st"
  FindELBV2ByNameTag :: "string \<Rightarrow> 'st \<Rightarrow> (err + elbv2_LoadBalancer option) \<times> 'st"
  FindELBByNameTag :: "string \<Rightarrow> 'st \<Rightarrow> (err + elb_LoadBalancerDescription option) \<times> 'st"

text \<open>
  A task runs in a world: the state of the cloud and the calls made so far. \<open>invoke\<close>
  makes one call: it takes the answer, moves the state and records the call.
\<close>

type_synonym ('st, 'c) world = "'st \<times> 'c list"

definition invoke :: "('st \<Rightarrow> 'r \<times> 'st) \<Rightarrow> 'c \<Rightarrow> ('st, 'c) world \<Rightarrow> 'r \<times> ('st, 'c) world" where
  "invoke f c w = (case f (fst w) of (r, s') \<Rightarrow> (r, (s', snd w @ [c])))"

text \<open>
  A statement that may return an error: it gives the error it returned, nil to go on, or
  a panic, and the world it leaves. \<open>seq\<close> runs statements in order up to the first that
  does not go on.
\<close>

type_synonym ('st, 'c) stmt = "('st, 'c) world \<Rightarrow> err option outcome \<times> ('st, 'c) world"

fun seq :: "('st, 'c) stmt list \<Rightarrow> ('st, 'c) stmt" where
  "seq [] w = (Return None, w)"
| "seq (f # fs) w =
     (case f w of
        (Return None, w') \<Rightarrow> seq fs w'
      | (r, w') \<Rightarrow> (r, w'))"

subsection \<open>Strings\<close>

definition HasPrefix :: "string \<Rightarrow> string \<Rightarrow> bool" where
  "HasPrefix s p \<longleftrightarrow> take (length p) s = p"

definition TrimPrefix :: "string \<Rightarrow> string \<Rightarrow> string" where
  "TrimPrefix s p = (if HasPrefix s p then drop (length p) s else s)"

definition HasSuffix :: "string \<Rightarrow> string \<Rightarrow> bool" where
  "HasSuffix s p \<longleftrightarrow> length p \<le> length s \<and> drop (length s - length p) s = p"

definition TrimSuffix :: "string \<Rightarrow> string \<Rightarrow> string" where
  "TrimSuffix s p = (if HasSuffix s p then take (length s - length p) s else s)"

subsection \<open>Looking a load balancer up\<close>

text \<open>
  \<open>describeNetworkLoadBalancers\<close> collects the load balancers of all pages that pass the
  filter. An error of the listing is formatted into a plain error with \<open>%v\<close>.
\<close>

definition describeNetworkLoadBalancers :: "'st AWSCloud \<Rightarrow> string list
    \<Rightarrow> (elbv2_LoadBalancer \<Rightarrow> bool) \<Rightarrow> ('st, api_call) world \<Rightarrow> (err + elbv2_LoadBalancer list) \<times> ('st, api_call) world" where
  "describeNetworkLoadBalancers cloud names flt w =
     (case invoke (DescribeLoadBalancersPages cloud names) (DescribeLoadBalancersPages_call names) w of
        ((pages, Some e), w') \<Rightarrow> (Inl (Errorf ''error listing NLBs'' (Some e)), w')
      | ((pages, None), w') \<Rightarrow> (Inr (filter flt (concat pages)), w'))"

text \<open>
  \<open>findNetworkLoadBalancerByLoadBalancerName\<close>: on an error of the listing it asserts the
  error to be an \<open>awserr.Error\<close> and compares its code with \<open>LoadBalancerNotFound\<close>.
\<close>

definition findNetworkLoadBalancerByLoadBalancerName :: "'st AWSCloud \<Rightarrow> string \<Rightarrow> ('st, api_call) world
    \<Rightarrow> (err + elbv2_LoadBalancer option) \<times> ('st, api_call) world" where
  "findNetworkLoadBalancerByLoadBalancerName cloud loadBalancerName w =
     (case describeNetworkLoadBalancers cloud [loadBalancerName]
             (\<lambda>lb. ValueOf (lb_LoadBalancerName lb) = loadBalancerName) w of
        (Inl e, w') \<Rightarrow>
          (case as_awserr e of
             Some code \<Rightarrow>
               if code = ''LoadBalancerNotFound'' then (Inr None, w')
               else (Inl (Errorf ''error listing NLBs'' (Some e)), w')
           | None \<Rightarrow> (Inl (Errorf ''error listing NLBs'' (Some e)), w'))
      | (Inr found, w') \<Rightarrow>
          (case found of
             [] \<Rightarrow> (Inr None, w')
           | [lb] \<Rightarrow> (Inr (Some lb), w')
           | _ \<Rightarrow> (Inl (Errorf ''Found multiple NLBs with name'' None), w')))"

definition findNetworkLoadBalancerByAlias :: "'st AWSCloud \<Rightarrow> route53_AliasTarget \<Rightarrow> ('st, api_call) world
    \<Rightarrow> (err + elbv2_LoadBalancer option) \<times> ('st, api_call) world" where
  "findNetworkLoadBalancerByAlias cloud alias w =
     (let matchDnsName = TrimSuffix (ValueOf (alias_DNSName alias)) ''.'';
          matchHostedZoneId = ValueOf (alias_HostedZoneId alias)
      in if matchDnsName = [] then (Inl (Errorf ''DNSName not set on AliasTarget'' None), w)
         else
           (case describeNetworkLoadBalancers cloud []
                   (\<lambda>lb. if matchHostedZoneId \<noteq> ValueOf (lb_CanonicalHostedZoneId lb) then False
                         else (let lbDnsName = TrimSuffix (ValueOf (lb_DNSName lb)) ''.''
                               in lbDnsName = matchDnsName \<or> ''dualstack.'' @ lbDnsName = matchDnsName)) w of
              (Inl e, w') \<Rightarrow> (Inl (Errorf ''error listing NLBs'' (Some e)), w')
            | (Inr found, w') \<Rightarrow>
                (case found of
                   [] \<Rightarrow> (Inr None, w')
                 | [lb] \<Rightarrow> (Inr (Some lb), w')
                 | _ \<Rightarrow> (Inl (Errorf ''Found multiple NLBs with DNSName'' None), w'))))"

text \<open>\<open>e.Tags["Name"]\<close>: the value of a key, the empty string where the key is missing.\<close>

definition tagValue :: "(string \<times> string) list option \<Rightarrow> string \<Rightarrow> string" where
  "tagValue tags k = (case map_of (elems tags) k of None \<Rightarrow> [] | Some v \<Rightarrow> v)"

text \<open>
  \<open>Find\<close> looks the load balancer up by its \<open>Name\<close> tag, propagates an error of the lookup
  and returns nil for a nil load balancer. What it does with a load balancer it found
  (reading tags, subnets, listeners and attributes into the actual task, and filling
  fields of the expected task) comes after this test and is the argument \<open>found\<close>.
\<close>

definition Find :: "'st AWSCloud
    \<Rightarrow> (elbv2_LoadBalancer \<Rightarrow> ('st, api_call) world \<Rightarrow> (err + NetworkLoadBalancer option) \<times> ('st, api_call) world)
    \<Rightarrow> NetworkLoadBalancer \<Rightarrow> ('st, api_call) world \<Rightarrow> (err + NetworkLoadBalancer option) \<times> ('st, api_call) world" where
  "Find cloud found e w =
     (case invoke (FindELBV2ByNameTag cloud (tagValue (Tags e) ''Name''))
             (FindELBV2ByNameTag_call (tagValue (Tags e) ''Name'')) w of
        (Inl err, w') \<Rightarrow> (Inl err, w')
      | (Inr None, w') \<Rightarrow> (Inr None, w')
      | (Inr (Some lb), w') \<Rightarrow> found lb w')"

subsection \<open>FindDeletions\<close>

text \<open>
  The deletion of a classic load balancer, named by its \<open>LoadBalancerName\<close>.
  \<open>FindDeletions\<close> returns the deletions to schedule. Its test of the registered
  instances is commented out in the source, so the instances are not read.
\<close>

record deleteClassicLoadBalancer =
  del_LoadBalancerName :: "string option"

definition FindDeletions :: "'st AWSCloud \<Rightarrow> NetworkLoadBalancer \<Rightarrow> ('st, api_call) world
    \<Rightarrow> (err + deleteClassicLoadBalancer list) \<times> ('st, api_call) world" where
  "FindDeletions cloud e w =
     (if CLBName e = None then (Inr [], w)
      else
        (case invoke (FindELBByNameTag cloud (ValueOf (CLBName e)))
                (FindELBByNameTag_call (ValueOf (CLBName e))) w of
           (Inl err, w') \<Rightarrow> (Inl err, w')
         | (Inr None, w') \<Rightarrow> (Inr [], w')
         | (Inr (Some lb), w') \<Rightarrow>
             (Inr [\<lparr> del_LoadBalancerName = elb_LoadBalancerName lb \<rparr>], w')))"

subsection \<open>RenderAWS\<close>

text \<open>
  \<open>mapToAWS\<close> builds the request that creates a listener. The loop over the target groups
  has no break: the last group of the listener's name gives the ARN.
\<close>

definition mapToAWS :: "NetworkLoadBalancerListener \<Rightarrow> TargetGroup list \<Rightarrow> string
    \<Rightarrow> err + CreateListenerInput" where
  "mapToAWS l targetGroups loadBalancerArn =
     (let tgARN = fold (\<lambda>tg acc. if ValueOf (tg_Name tg) = TargetGroupName l
                                  then ValueOf (tg_ARN tg) else acc) targetGroups []
      in if tgARN = [] then Inl (Errorf ''target group not found for NLB listener'' None)
         else Inr \<lparr> cli_TargetGroupArn = tgARN,
                    cli_LoadBalancerArn = loadBalancerArn,
                    cli_Port = Port l,
                    cli_Certificates = (if SSLCertificateID l \<noteq> [] then Some [SSLCertificateID l] else None),
                    cli_Protocol = (if SSLCertificateID l \<noteq> [] then ''TLS'' else ''TCP''),
                    cli_SslPolicy = (if SSLCertificateID l \<noteq> [] \<and> SSLPolicy l \<noteq> []
                                     then Some (SSLPolicy l) else None) \<rparr>)"

text \<open>Creating the listeners one by one; \<open>msg\<close> is the text that wraps an error of the call.\<close>

fun createListeners :: "'st AWSCloud \<Rightarrow> string \<Rightarrow> TargetGroup list \<Rightarrow> string
    \<Rightarrow> NetworkLoadBalancerListener list \<Rightarrow> ('st, api_call) stmt" where
  "createListeners cloud msg targetGroups arn [] w = (Return None, w)"
| "createListeners cloud msg targetGroups arn (l # ls) w =
     (case mapToAWS l targetGroups arn of
        Inl e \<Rightarrow> (Return (Some e), w)
      | Inr input \<Rightarrow>
          (case invoke (CreateListener cloud input) (CreateListener_call input) w of
             (Some e, w') \<Rightarrow> (Return (Some (Errorf msg (Some e))), w')
           | (None, w') \<Rightarrow> createListeners cloud msg targetGroups arn ls w'))"

fun deleteListeners :: "'st AWSCloud \<Rightarrow> elbv2_Listener list \<Rightarrow> ('st, api_call) stmt" where
  "deleteListeners cloud [] w = (Return None, w)"
| "deleteListeners cloud (l # ls) w =
     (case invoke (DeleteListener cloud (el_ListenerArn l)) (DeleteListener_call (el_ListenerArn l)) w of
        (Some e, w') \<Rightarrow>
          (Return (Some (Errorf ''error deleting load balancer listener with arn'' (Some e))), w')
      | (None, w') \<Rightarrow> deleteListeners cloud ls w')"

text \<open>The subnet mappings of a request; reading \<open>subnetMapping.Subnet.ID\<close> panics on a nil subnet.\<close>

fun toSubnetMappings :: "SubnetMapping list \<Rightarrow> elbv2_SubnetMapping list outcome" where
  "toSubnetMappings [] = Return []"
| "toSubnetMappings (s # ss) =
     (case sm_Subnet s of
        None \<Rightarrow> Panic
      | Some sn \<Rightarrow>
          (case toSubnetMappings ss of
             Panic \<Rightarrow> Panic
           | Return r \<Rightarrow>
               Return (\<lparr> esm_SubnetId = sn_ID sn, esm_AllocationId = sm_AllocationID s,
                         esm_PrivateIPv4Address = sm_PrivateIPv4Address s \<rparr> # r)))"

text \<open>
  The map \<open>actualSubnets\<close> of the update path: an actual mapping enters it only with an
  address setting, the private address winning over the allocation ID.
\<close>

fun actualSubnets :: "SubnetMapping list \<Rightarrow> (string \<rightharpoonup> string option)
    \<Rightarrow> (string \<rightharpoonup> string option) outcome" where
  "actualSubnets [] m = Return m"
| "actualSubnets (s # ss) m =
     (case (if sm_AllocationID s \<noteq> None
            then (case subnetID s of None \<Rightarrow> Panic | Some i \<Rightarrow> Return (m(i \<mapsto> sm_AllocationID s)))
            else Return m) of
        Panic \<Rightarrow> Panic
      | Return m1 \<Rightarrow>
          (case (if sm_PrivateIPv4Address s \<noteq> None
                 then (case subnetID s of None \<Rightarrow> Panic
                       | Some i \<Rightarrow> Return (m1(i \<mapsto> sm_PrivateIPv4Address s)))
                 else Return m1) of
             Panic \<Rightarrow> Panic
           | Return m2 \<Rightarrow> actualSubnets ss m2))"

text \<open>The loop over the expected mappings: whether something changes, and the request.\<close>

fun subnetChanges :: "(string \<rightharpoonup> string option) \<Rightarrow> SubnetMapping list
    \<Rightarrow> (bool \<times> elbv2_SubnetMapping list) outcome" where
  "subnetChanges m [] = Return (False, [])"
| "subnetChanges m (s # ss) =
     (case sm_Subnet s of
        None \<Rightarrow> Panic
      | Some sn \<Rightarrow>
          (case sn_ID sn of
             None \<Rightarrow> Panic
           | Some i \<Rightarrow>
               (case subnetChanges m ss of
                  Panic \<Rightarrow> Panic
                | Return (hasChanges, r) \<Rightarrow>
                    Return ((case m i of
                               None \<Rightarrow> True
                             | Some aIP \<Rightarrow>
                                 ValueOf (sm_PrivateIPv4Address s) \<noteq> ValueOf aIP
                                 \<and> ValueOf (sm_AllocationID s) \<noteq> ValueOf aIP) \<or> hasChanges,
                            \<lparr> esm_SubnetId = sn_ID sn, esm_AllocationId = sm_AllocationID s,
                              esm_PrivateIPv4Address = sm_PrivateIPv4Address s \<rparr> # r))))"

text \<open>The steps of the update path, each under the test of its field of \<open>changes\<close>.\<close>

definition updateIpAddressType :: "'st AWSCloud \<Rightarrow> elbv2_LoadBalancer \<Rightarrow> NetworkLoadBalancer
    \<Rightarrow> NetworkLoadBalancer \<Rightarrow> ('st, api_call) stmt" where
  "updateIpAddressType cloud lb e changes w =
     (if IpAddressType changes \<noteq> None then
        (case invoke (SetIpAddressType cloud (IpAddressType e) (lb_LoadBalancerArn lb))
                (SetIpAddressType_call (IpAddressType e) (lb_LoadBalancerArn lb)) w of
           (Some err, w') \<Rightarrow> (Return (Some (Errorf ''error setting the IP addresses type'' (Some err))), w')
         | (None, w') \<Rightarrow> (Return None, w'))
      else (Return None, w))"

definition updateSubnets :: "'st AWSCloud \<Rightarrow> string \<Rightarrow> NetworkLoadBalancer \<Rightarrow> NetworkLoadBalancer
    \<Rightarrow> NetworkLoadBalancer \<Rightarrow> ('st, api_call) stmt" where
  "updateSubnets cloud arn a e changes w =
     (if SubnetMappings changes \<noteq> None then
        (case actualSubnets (elems (SubnetMappings a)) Map.empty of
           Panic \<Rightarrow> (Panic, w)
         | Return m \<Rightarrow>
             (case subnetChanges m (elems (SubnetMappings e)) of
                Panic \<Rightarrow> (Panic, w)
              | Return (hasChanges, awsSubnetMappings) \<Rightarrow>
                  if hasChanges then
                    (case invoke (SetSubnets cloud arn awsSubnetMappings)
                            (SetSubnets_call arn awsSubnetMappings) w of
                       (Some err, w') \<Rightarrow>
                         (Return (Some (Errorf ''error attaching load balancer to new subnets'' (Some err))), w')
                     | (None, w') \<Rightarrow> (Return None, w'))
                  else (Return None, w)))
      else (Return None, w))"

definition updateListeners :: "'st AWSCloud \<Rightarrow> elbv2_LoadBalancer \<Rightarrow> string \<Rightarrow> NetworkLoadBalancer
    \<Rightarrow> NetworkLoadBalancer \<Rightarrow> ('st, api_call) stmt" where
  "updateListeners cloud lb arn e changes w =
     (if Listeners changes \<noteq> None then
        (case invoke (DescribeListeners cloud (lb_LoadBalancerArn lb))
                (DescribeListeners_call (lb_LoadBalancerArn lb)) w of
           (Inl err, w') \<Rightarrow> (Return (Some (Errorf ''error querying for NLB listeners'' (Some err))), w')
         | (Inr listeners, w') \<Rightarrow>
             seq [deleteListeners cloud listeners,
                  createListeners cloud ''error creating NLB listener'' (elems (TargetGroups e)) arn
                    (elems (Listeners changes))] w')
      else (Return None, w))"

text \<open>
  The three helpers of the update path. Each invocation is recorded with the flag the
  helper answered: whether it issued a request that changes the cloud.
\<close>

definition addTags :: "'st AWSCloud \<Rightarrow> string \<Rightarrow> NetworkLoadBalancer \<Rightarrow> ('st, api_call) stmt" where
  "addTags cloud arn e w =
     (case AddELBV2Tags cloud arn (Tags e) (fst w) of
        ((r, wrote), s') \<Rightarrow> (Return r, (s', snd w @ [AddELBV2Tags_call arn (Tags e) wrote])))"

definition removeTags :: "'st AWSCloud \<Rightarrow> string \<Rightarrow> NetworkLoadBalancer \<Rightarrow> ('st, api_call) stmt" where
  "removeTags cloud arn e w =
     (case RemoveELBV2Tags cloud arn (Tags e) (fst w) of
        ((r, wrote), s') \<Rightarrow> (Return r, (s', snd w @ [RemoveELBV2Tags_call arn (Tags e) wrote])))"

definition modifyAttributes :: "'st AWSCloud \<Rightarrow> NetworkLoadBalancer option \<Rightarrow> NetworkLoadBalancer
    \<Rightarrow> NetworkLoadBalancer \<Rightarrow> string \<Rightarrow> ('st, api_call) stmt" where
  "modifyAttributes cloud a e changes arn w =
     (case modifyLoadBalancerAttributes cloud a e changes arn (fst w) of
        ((r, wrote), s') \<Rightarrow> (Return r, (s', snd w @ [modifyLoadBalancerAttributes_call arn wrote])))"

text \<open>
  The update path: the load balancer is looked up by the actual name, and reading the
  ARN of a load balancer that was not found panics.
\<close>

definition renderUpdate :: "'st AWSCloud \<Rightarrow> NetworkLoadBalancer \<Rightarrow> NetworkLoadBalancer
    \<Rightarrow> NetworkLoadBalancer \<Rightarrow> ('st, api_call) stmt" where
  "renderUpdate cloud a e changes w =
     (case findNetworkLoadBalancerByLoadBalancerName cloud (ValueOf (LoadBalancerName a)) w of
        (Inl err, w') \<Rightarrow> (Return (Some (Errorf ''error getting load balancer by name'' (Some err))), w')
      | (Inr None, w') \<Rightarrow> (Panic, w')
      | (Inr (Some lb), w') \<Rightarrow>
          (let arn = ValueOf (lb_LoadBalancerArn lb)
           in seq [updateIpAddressType cloud lb e changes,
                   updateSubnets cloud arn a e changes,
                   updateListeners cloud lb arn e changes,
                   addTags cloud arn e,
                   removeTags cloud arn e,
                   modifyAttributes cloud (Some a) e changes arn] w'))"

text \<open>
  The creation path. It writes the DNS name, the hosted zone and the VPC of the created
  load balancer into the expected task, so the task is part of the result.
\<close>

definition waitForLoadBalancer :: "'st AWSCloud \<Rightarrow> string \<Rightarrow> NetworkLoadBalancer \<Rightarrow> ('st, api_call) stmt" where
  "waitForLoadBalancer cloud loadBalancerName e w =
     (if \<exists>tg \<in> set (elems (TargetGroups e)). HasPrefix (ValueOf (tg_Name tg)) ''kops-controller'' then
        (case invoke (WaitUntilLoadBalancerAvailable cloud loadBalancerName)
                (WaitUntilLoadBalancerAvailable_call loadBalancerName) w of
           (Some err, w') \<Rightarrow> (Return (Some (Errorf ''error waiting for NLB'' (Some err))), w')
         | (None, w') \<Rightarrow> (Return None, w'))
      else (Return None, w))"

definition renderCreate :: "'st AWSCloud \<Rightarrow> NetworkLoadBalancer \<Rightarrow> NetworkLoadBalancer
    \<Rightarrow> ('st, api_call) world \<Rightarrow> (err option outcome \<times> NetworkLoadBalancer) \<times> ('st, api_call) world" where
  "renderCreate cloud e changes w =
     (case LoadBalancerName e of
        None \<Rightarrow> ((Return (Some (RequiredField ''LoadBalancerName'')), e), w)
      | Some loadBalancerName \<Rightarrow>
          if \<exists>tg \<in> set (elems (TargetGroups e)). tg_ARN tg = None
          then ((Return (Some (Errorf ''missing required target group ARN for NLB creation'' None)), e), w)
          else
            (case toSubnetMappings (elems (SubnetMappings e)) of
               Panic \<Rightarrow> ((Panic, e), w)
             | Return mappings \<Rightarrow>
                 (let request = \<lparr> clb_Name = LoadBalancerName e, clb_Scheme = Scheme e,
                                  clb_Type = Type e, clb_IpAddressType = IpAddressType e,
                                  clb_Tags = Tags e, clb_SubnetMappings = mappings \<rparr>
                  in case invoke (CreateLoadBalancer cloud request) (CreateLoadBalancer_call request) w of
                       (Inl err, w') \<Rightarrow> ((Return (Some (Errorf ''error creating NLB'' (Some err))), e), w')
                     | (Inr [lb], w') \<Rightarrow>
                         (let e' = e \<lparr> DNSName := lb_DNSName lb,
                                       HostedZoneId := lb_CanonicalHostedZoneId lb,
                                       VPC := Some (lb_VpcId lb) \<rparr>;
                              arn = ValueOf (lb_LoadBalancerArn lb)
                          in case seq [waitForLoadBalancer cloud loadBalancerName e',
                                       createListeners cloud ''error creating listener for NLB''
                                         (elems (TargetGroups e')) arn (elems (Listeners e')),
                                       modifyAttributes cloud None e' changes arn] w' of
                               (r, w'') \<Rightarrow> ((r, e'), w''))
                     | (Inr lbs, w') \<Rightarrow> ((Return (Some (Errorf ''error creating NLB: found'' None)), e), w'))))"

text \<open>
  \<open>RenderAWS\<close>: the actual task is nil on creation. The test of the numbers of listeners and
  target groups comes before everything else.
\<close>

definition RenderAWS :: "'st AWSCloud \<Rightarrow> NetworkLoadBalancer option \<Rightarrow> NetworkLoadBalancer
    \<Rightarrow> NetworkLoadBalancer \<Rightarrow> ('st, api_call) world \<Rightarrow> (err option outcome \<times> NetworkLoadBalancer) \<times> ('st, api_call) world" where
  "RenderAWS cloud a e changes w =
     (if length (elems (Listeners e)) \<noteq> length (elems (TargetGroups e))
      then ((Return (Some (Errorf ''nlb listeners and target groups do not match'' None)), e), w)
      else
        (case a of
           None \<Rightarrow> renderCreate cloud e changes w
         | Some act \<Rightarrow>
             (case renderUpdate cloud act e changes w of
                (r, w') \<Rightarrow> ((r, e), w'))))"





section \<open>The Scaleway cloud\<close>

definition TagClusterName :: string where "TagClusterName = ''noprefix=kops.k8s.io/cluster''"
definition TagInstanceGroup :: string where "TagInstanceGroup = ''noprefix=kops.k8s.io/instance-group''"
definition TagNameRolePrefix :: string where "TagNameRolePrefix = ''noprefix=kops.k8s.io/role''"
definition TagRoleControlPlane :: string where "TagRoleControlPlane = ''ControlPlane''"
definition TagRoleWorker :: string where "TagRoleWorker = ''Node''"


text \<open>\<open>ClusterName\<close>: the first tag that starts with the cluster tag gives the name.\<close>

definition ClusterName :: "string list \<Rightarrow> string" where
  "ClusterName tags =
     (case filter (\<lambda>tag. HasPrefix tag TagClusterName) tags of
        [] \<Rightarrow> []
      | tag # rest \<Rightarrow> TrimPrefix tag (TagClusterName @ ''=''))"

record scw_Server =
  srv_ID :: string
  srv_Name :: string
  srv_Zone :: string
  srv_CommercialType :: string
  srv_Tags :: "string list"
  srv_PrivateIP :: "string option"

record scw_LB =
  slb_ID :: string
  slb_Name :: string

record scw_Backend =
  be_ID :: string

text \<open>
  The request that creates a server; \<open>csr_Volumes\<close> tells whether it asks for the boot
  volume of 50 GB.
\<close>

record CreateServerRequest =
  csr_Zone :: string
  csr_Name :: string
  csr_CommercialType :: string
  csr_Image :: string
  csr_Tags :: "string list"
  csr_Volumes :: bool

datatype scw_call =
    ListServers_call "string option" "string list"
  | CreateServer_call CreateServerRequest
  | WaitForServer_call string string
  | SetServerUserData_call string string string
  | ServerAction_call string string string
  | GetServer_call string string
  | DeleteServer_call scw_Server
  | GetClusterLoadBalancers_call string
  | ListBackends_call string string
  | AddBackendServers_call string string "string list"
  | RemoveBackendServers_call string string "string list"
  | WaitForLb_call string string

text \<open>
  The cloud of Scaleway: its zone, the instance and load-balancer services of the SDK, and
  the methods \<open>DeleteServer\<close> and \<open>GetClusterLoadBalancers\<close> of the cloud interface.
  \<open>ListBackends\<close> answers with the total count and the back-ends.
\<close>

record 'st ScwCloud =
  scw_Zone :: string
  ListServers :: "string option \<Rightarrow> string list \<Rightarrow> 'st \<Rightarrow> (err + scw_Server list) \<times> 'st"
  CreateServer :: "CreateServerRequest \<Rightarrow> 'st \<Rightarrow> (err + scw_Server) \<times> 'st"
  WaitForServer :: "string \<Rightarrow> string \<Rightarrow> 'st \<Rightarrow> err option \<times> 'st"
  SetServerUserData :: "string \<Rightarrow> string \<Rightarrow> string \<Rightarrow> 'st \<Rightarrow> err option \<times> 'st"
  ServerAction :: "string \<Rightarrow> string \<Rightarrow> string \<Rightarrow> 'st \<Rightarrow> err option \<times> 'st"
  GetServer :: "string \<Rightarrow> string \<Rightarrow> 'st \<Rightarrow> (err + scw_Server) \<times> 'st"
  DeleteServer :: "scw_Server \<Rightarrow> 'st \<Rightarrow> err option \<times> 'st"
  GetClusterLoadBalancers :: "string \<Rightarrow> 'st \<Rightarrow> (err + scw_LB list) \<times> 'st"
  ListBackends :: "string \<Rightarrow> string \<Rightarrow> 'st \<Rightarrow> (err + nat \<times> scw_Backend list) \<times> 'st"
  AddBackendServers :: "string \<Rightarrow> string \<Rightarrow> string list \<Rightarrow> 'st \<Rightarrow> err option \<times> 'st"
  RemoveBackendServers :: "string \<Rightarrow> string \<Rightarrow> string list \<Rightarrow> 'st \<Rightarrow> err option \<times> 'st"
  WaitForLb :: "string \<Rightarrow> string \<Rightarrow> 'st \<Rightarrow> err option \<times> 'st"

text \<open>\<open>GetClusterServers\<close> lists the servers of all pages that carry the tags.\<close>

definition GetClusterServers :: "'st ScwCloud \<Rightarrow> string \<Rightarrow> string option \<Rightarrow> ('st, scw_call) world
    \<Rightarrow> (err + scw_Server list) \<times> ('st, scw_call) world" where
  "GetClusterServers cloud clusterName instanceGroupName w =
     (let tags = [TagClusterName @ ''='' @ clusterName] @
                 (case instanceGroupName of None \<Rightarrow> [] | Some n \<Rightarrow> [TagInstanceGroup @ ''='' @ n])
      in case invoke (ListServers cloud instanceGroupName tags) (ListServers_call instanceGroupName tags) w of
           (Inl e, w') \<Rightarrow>
             (if instanceGroupName \<noteq> None
              then (Inl (Errorf ''failed to list cluster servers named'' (Some e)), w')
              else (Inl (Errorf ''failed to list cluster servers'' (Some e)), w'))
         | (Inr servers, w') \<Rightarrow> (Inr servers, w'))"

subsection \<open>Find\<close>

text \<open>
  The instance group's name is read from the last tag that starts with the instance
  group tag, the role is control plane when the control-plane tag is present.
\<close>

definition Instance_Find :: "'st ScwCloud \<Rightarrow> Instance \<Rightarrow> ('st, scw_call) world
    \<Rightarrow> (err + Instance option) \<times> ('st, scw_call) world" where
  "Instance_Find cloud s w =
     (case GetClusterServers cloud (ClusterName (inst_Tags s)) (inst_Name s) w of
        (Inl e, w') \<Rightarrow> (Inl (Errorf ''error finding instances'' (Some e)), w')
      | (Inr [], w') \<Rightarrow> (Inr None, w')
      | (Inr (server # rest), w') \<Rightarrow>
          (let igName = fold (\<lambda>tag acc. if HasPrefix tag TagInstanceGroup
                                          then TrimPrefix tag (TagInstanceGroup @ ''='') else acc)
                          (srv_Tags server) [];
               role = (if TagNameRolePrefix @ ''='' @ TagRoleControlPlane \<in> set (srv_Tags server)
                       then TagRoleControlPlane else TagRoleWorker)
           in (Inr (Some \<lparr> inst_Name = Some igName,
                            inst_Zone = Some (srv_Zone server),
                            inst_Role = Some role,
                            inst_CommercialType = Some (srv_CommercialType server),
                            inst_Image = inst_Image s,
                            inst_Tags = srv_Tags server,
                            inst_Count = int (length (server # rest)),
                            inst_UserData = inst_UserData s \<rparr>), w')))"

subsection \<open>RenderScw\<close>














section \<open>The backoff policies of the OpenStack cloud\<close>

text \<open>
  A \<open>wait.Backoff\<close>: the first delay in nanoseconds, the factor a delay grows by, the
  jitter and the number of steps. The factors and the jitter are decimal constants of the
  source and are taken as the rationals they denote.
\<close>

record Backoff =
  Duration :: nat
  Factor :: real
  Jitter :: real
  Steps :: int

definition Second :: nat where
  "Second = 1000000000"

definition readBackoff :: Backoff where
  "readBackoff = \<lparr> Duration = Second, Factor = 15 / 10, Jitter = 1 / 10, Steps = 10 \<rparr>"

definition writeBackoff :: Backoff where
  "writeBackoff = \<lparr> Duration = Second, Factor = 2, Jitter = 1 / 10, Steps = 5 \<rparr>"

definition deleteBackoff :: Backoff where
  "deleteBackoff = \<lparr> Duration = Second, Factor = 5, Jitter = 1 / 10, Steps = 4 \<rparr>"

text \<open>The delay before retry \<open>k\<close>, without jitter.\<close>

definition delay :: "Backoff \<Rightarrow> nat \<Rightarrow> real" where
  "delay b k = real (Duration b) * Factor b ^ k"

section \<open>Calls of a statement\<close>



section \<open>Example tasks\<close>

text \<open>
  The load balancer of the specification's scenario, \<open>LB{Name:"api.cluster1",
  SubnetMappings:[]}\<close>, a mapping of a subnet without address settings, and the same load
  balancer with one subnet mapping.
\<close>

definition lb_empty :: NetworkLoadBalancer where
  "lb_empty = \<lparr> Name = None, LoadBalancerName = None, CLBName = None, DNSName = None,
      HostedZoneId = None, SubnetMappings = None, Listeners = None, Scheme = None,
      CrossZoneLoadBalancing = None, IpAddressType = None, Tags = None, ForAPIServer = False,
      Type = None, VPC = None, TargetGroups = None, AccessLog = None \<rparr>"

definition lb_scenario :: NetworkLoadBalancer where
  "lb_scenario = lb_empty \<lparr> Name := Some ''api.cluster1'', SubnetMappings := Some [] \<rparr>"

definition plain_mapping :: "string \<Rightarrow> SubnetMapping" where
  "plain_mapping i = \<lparr> sm_Subnet = Some \<lparr> sn_ID = Some i, sn_Name = Some i, sn_ShortName = Some i \<rparr>,
      sm_PrivateIPv4Address = None, sm_AllocationID = None \<rparr>"

definition lb_with :: "SubnetMapping list \<Rightarrow> NetworkLoadBalancer" where
  "lb_with ms = lb_empty \<lparr> Name := Some ''api.cluster1'', SubnetMappings := Some ms \<rparr>"

definition instance_empty :: Instance where
  "instance_empty = \<lparr> inst_Name = None, inst_Zone = None, inst_Role = None,
      inst_CommercialType = None, inst_Image = None, inst_Tags = [], inst_Count = 0,
      inst_UserData = None \<rparr>"

definition instance_nodes :: Instance where
  "instance_nodes = \<lparr> inst_Name = Some ''nodes-1'', inst_Zone = Some ''fr-par-1'',
      inst_Role = Some ''Node'', inst_CommercialType = Some ''DEV1-M'',
      inst_Image = Some ''ubuntu_jammy'', inst_Tags = [], inst_Count = 2,
      inst_UserData = Some (Inr ''#cloud-config'') \<rparr>"

text \<open>A mapping with a private address, a listener, and a load balancer with listeners.\<close>

definition private_mapping :: "string \<Rightarrow> string \<Rightarrow> SubnetMapping" where
  "private_mapping i ip = (plain_mapping i) \<lparr> sm_PrivateIPv4Address := Some ip \<rparr>"

definition listener :: "int \<Rightarrow> string \<Rightarrow> NetworkLoadBalancerListener" where
  "listener p tg = \<lparr> Port = p, TargetGroupName = tg, SSLCertificateID = [], SSLPolicy = [] \<rparr>"

definition lb_listeners :: "NetworkLoadBalancerListener list \<Rightarrow> NetworkLoadBalancer" where
  "lb_listeners ls = (lb_with [plain_mapping ''A'']) \<lparr> Listeners := Some ls \<rparr>"

text \<open>
  A cloud that holds one network load balancer and one classic load balancer with a
  registered instance; its state counts the calls that change it, and its three helpers
  find nothing to change. The same cloud with a
  listing that fails with the code \<open>LoadBalancerNotFound\<close>. A load balancer task with one
  listener and one target group, and a Scaleway cloud without servers.
\<close>

definition demo_lb :: elbv2_LoadBalancer where
  "demo_lb = \<lparr> lb_LoadBalancerArn = Some ''arn:nlb'', lb_LoadBalancerName = Some ''api-nlb'',
      lb_DNSName = Some ''api-nlb.elb.amazonaws.com'', lb_CanonicalHostedZoneId = Some ''Z26RNL4JYFTOTI'',
      lb_VpcId = Some ''vpc-1'' \<rparr>"

definition demo_clb :: elb_LoadBalancerDescription where
  "demo_clb = \<lparr> elb_LoadBalancerName = Some ''api-clb'', elb_Instances = [''i-0abc''] \<rparr>"

definition demo_cloud :: "nat AWSCloud" where
  "demo_cloud = \<lparr>
      DescribeLoadBalancersPages = (\<lambda>names s. (([[demo_lb]], None), s)),
      CreateLoadBalancer = (\<lambda>request s. (Inr [demo_lb], Suc s)),
      WaitUntilLoadBalancerAvailable = (\<lambda>name s. (None, s)),
      CreateListener = (\<lambda>input s. (None, Suc s)),
      SetIpAddressType = (\<lambda>t arn s. (None, Suc s)),
      SetSubnets = (\<lambda>arn ms s. (None, Suc s)),
      DescribeListeners = (\<lambda>arn s. (Inr [\<lparr> el_ListenerArn = Some ''arn:listener'' \<rparr>], s)),
      DeleteListener = (\<lambda>arn s. (None, Suc s)),
      AddELBV2Tags = (\<lambda>arn tags s. ((None, False), s)),
      RemoveELBV2Tags = (\<lambda>arn tags s. ((None, False), s)),
      modifyLoadBalancerAttributes = (\<lambda>a e changes arn s. ((None, False), s)),
      FindELBV2ByNameTag = (\<lambda>name s. (Inr (Some demo_lb), s)),
      FindELBByNameTag = (\<lambda>name s. (Inr (Some demo_clb), s)) \<rparr>"

definition not_found_cloud :: "nat AWSCloud" where
  "not_found_cloud = demo_cloud \<lparr> DescribeLoadBalancersPages :=
      (\<lambda>names s. (([], Some (AwsError ''LoadBalancerNotFound'' ''One or more load balancers not found'')), s)) \<rparr>"

definition lb_api :: NetworkLoadBalancer where
  "lb_api = (lb_with [plain_mapping ''A''])
      \<lparr> LoadBalancerName := Some ''api-nlb'', CLBName := Some ''api-clb'',
        Listeners := Some [listener 443 ''tcp''],
        Tags := Some [(''Name'', ''api.cluster1'')],
        TargetGroups := Some [\<lparr> tg_Name = Some ''tcp'', tg_ARN = Some ''arn:tg'' \<rparr>] \<rparr>"


section \<open>Creation-time validation: proofs\<close>

text \<open>On creation the cross-zone test never fires, which leaves four tests.\<close>

lemma CheckChanges_create_cases:
  "CheckChanges None e ch =
     (if ValueOf (Name e) = [] then Return (Some (RequiredField ''Name''))
      else if elems (SubnetMappings e) = [] then Return (Some (RequiredField ''SubnetMappings''))
      else case AccessLog e of
             None \<Rightarrow> Return None
           | Some al \<Rightarrow>
               (case al_Enabled al of
                  None \<Rightarrow> Return (Some (RequiredField ''Accesslog.Enabled''))
                | Some en \<Rightarrow>
                    if en \<and> al_S3BucketName al = None
                    then Return (Some (RequiredField ''Accesslog.S3Bucket''))
                    else Return None))"
  by (cases "CrossZoneLoadBalancing e") (simp_all add: CheckChanges_def)

text \<open>
  Claim C1. With no actual resource, \<open>CheckChanges\<close> of the load balancer returns nil
  exactly when the required fields are set, and a \<open>RequiredField\<close> error otherwise: the one
  for \<open>Name\<close> when the name is empty, the one for \<open>SubnetMappings\<close> when the name is set and
  there is no subnet mapping. The same holds for the Scaleway instance with its required
  fields \<open>Name\<close>, \<open>Zone\<close>, \<open>CommercialType\<close> and \<open>Image\<close>, tested in this order.
\<close>

theorem required_fields_on_creation:
  "(CheckChanges None e ch = Return None \<longleftrightarrow> nlb_required_set e)
   \<and> (\<not> nlb_required_set e \<longrightarrow> (\<exists>f. CheckChanges None e ch = Return (Some (RequiredField f))))
   \<and> (ValueOf (Name e) = [] \<longrightarrow> CheckChanges None e ch = Return (Some (RequiredField ''Name'')))
   \<and> (ValueOf (Name e) \<noteq> [] \<and> elems (SubnetMappings e) = []
        \<longrightarrow> CheckChanges None e ch = Return (Some (RequiredField ''SubnetMappings'')))
   \<and> (Instance_CheckChanges None x xch = None \<longleftrightarrow> instance_required_set x)
   \<and> (\<not> instance_required_set x \<longrightarrow> (\<exists>f. Instance_CheckChanges None x xch = Some (RequiredField f)))
   \<and> (inst_Name x = None \<longrightarrow> Instance_CheckChanges None x xch = Some (RequiredField ''Name''))
   \<and> (inst_Name x \<noteq> None \<and> inst_Zone x = None
        \<longrightarrow> Instance_CheckChanges None x xch = Some (RequiredField ''Zone''))
   \<and> (inst_Name x \<noteq> None \<and> inst_Zone x \<noteq> None \<and> inst_CommercialType x = None
        \<longrightarrow> Instance_CheckChanges None x xch = Some (RequiredField ''CommercialType''))
   \<and> (inst_Name x \<noteq> None \<and> inst_Zone x \<noteq> None \<and> inst_CommercialType x \<noteq> None \<and> inst_Image x = None
        \<longrightarrow> Instance_CheckChanges None x xch = Some (RequiredField ''Image''))"
  unfolding CheckChanges_create_cases nlb_required_set_def Instance_CheckChanges_def
    instance_required_set_def
  by (auto split: option.splits)

theorem required_fields_on_creation_witness:
  "ValueOf (Name lb_scenario) \<noteq> [] \<and> elems (SubnetMappings lb_scenario) = []
   \<and> \<not> nlb_required_set lb_scenario
   \<and> CheckChanges None lb_scenario lb_scenario = Return (Some (RequiredField ''SubnetMappings''))
   \<and> ValueOf (Name lb_empty) = []
   \<and> CheckChanges None lb_empty lb_empty = Return (Some (RequiredField ''Name''))
   \<and> nlb_required_set (lb_with [plain_mapping ''subnet-a''])
   \<and> CheckChanges None (lb_with [plain_mapping ''subnet-a'']) lb_empty = Return None
   \<and> inst_Name instance_empty = None
   \<and> Instance_CheckChanges None instance_empty instance_empty = Some (RequiredField ''Name'')
   \<and> inst_Name (instance_nodes \<lparr> inst_Zone := None \<rparr>) \<noteq> None
   \<and> inst_Zone (instance_nodes \<lparr> inst_Zone := None \<rparr>) = None
   \<and> Instance_CheckChanges None (instance_nodes \<lparr> inst_Zone := None \<rparr>) instance_empty
       = Some (RequiredField ''Zone'')
   \<and> Instance_CheckChanges None (instance_nodes \<lparr> inst_CommercialType := None \<rparr>) instance_empty
       = Some (RequiredField ''CommercialType'')
   \<and> Instance_CheckChanges None (instance_nodes \<lparr> inst_Image := None \<rparr>) instance_empty
       = Some (RequiredField ''Image'')
   \<and> instance_required_set instance_nodes
   \<and> Instance_CheckChanges None instance_nodes instance_empty = None"
  using required_fields_on_creation [of lb_scenario lb_scenario "instance_nodes \<lparr> inst_Zone := None \<rparr>" instance_empty]
    required_fields_on_creation [of lb_empty lb_empty instance_empty instance_empty]
    required_fields_on_creation [of "lb_with [plain_mapping ''subnet-a'']" lb_empty instance_nodes instance_empty]
    required_fields_on_creation [of lb_empty lb_empty "instance_nodes \<lparr> inst_CommercialType := None \<rparr>" instance_empty]
    required_fields_on_creation [of lb_empty lb_empty "instance_nodes \<lparr> inst_Image := None \<rparr>" instance_empty]
  by (simp add: lb_scenario_def lb_with_def lb_empty_def plain_mapping_def instance_nodes_def
      instance_empty_def nlb_required_set_def instance_required_set_def ValueOf_def elems_def)

text \<open>
  Claim C9. With no actual resource, \<open>CheckChanges\<close> never returns the \<open>RequiredField\<close>
  error of \<open>CrossZoneLoadBalancing\<close>: the test for it sits under the opposite test of the
  same pointer. The result is the one the task gets with the field unset, so an unset
  \<open>CrossZoneLoadBalancing\<close> is never rejected on creation.
\<close>

theorem cross_zone_never_required:
  "CheckChanges None e ch \<noteq> Return (Some (RequiredField ''CrossZoneLoadBalancing''))
   \<and> CheckChanges None (e\<lparr>CrossZoneLoadBalancing := None\<rparr>) ch = CheckChanges None e ch"
  unfolding CheckChanges_create_cases
  by (auto split: option.splits)

theorem cross_zone_never_required_witness:
  "CrossZoneLoadBalancing (lb_with [plain_mapping ''subnet-a'']) = None
   \<and> CheckChanges None (lb_with [plain_mapping ''subnet-a'']) lb_empty
       \<noteq> Return (Some (RequiredField ''CrossZoneLoadBalancing''))
   \<and> CheckChanges None (lb_with [plain_mapping ''subnet-a'']) lb_empty = Return None"
  using cross_zone_never_required [of "lb_with [plain_mapping ''subnet-a'']" lb_empty]
  by (simp add: CheckChanges_def lb_with_def lb_empty_def plain_mapping_def ValueOf_def elems_def)
section \<open>Update-time validation: proofs\<close>

lemma address_modified_iff:
  "address_modified act ex \<longleftrightarrow>
     (\<exists>s \<in> set act. \<exists>i eIP. subnetID s = Some i \<and> expectedAddressOf ex i = Some eIP
        \<and> address_differs eIP s)"
proof -
  have "(case subnetID s of None \<Rightarrow> False
         | Some i \<Rightarrow> (case expectedAddressOf ex i of None \<Rightarrow> False
                      | Some eIP \<Rightarrow> address_differs eIP s))
        \<longleftrightarrow> (\<exists>i eIP. subnetID s = Some i \<and> expectedAddressOf ex i = Some eIP
              \<and> address_differs eIP s)" for s
    by (cases "subnetID s"; cases "expectedAddressOf ex (the (subnetID s))") simp_all
  then show ?thesis by (simp add: address_modified_def)
qed

lemma expectedSubnets_general:
  "has_ids ms \<Longrightarrow>
   expectedSubnets ms m =
     Return (\<lambda>i. case expectedAddressOf ms i of None \<Rightarrow> m i | Some v \<Rightarrow> Some v)"
proof (induction ms arbitrary: m)
  case Nil
  then show ?case by (simp add: expectedAddressOf_def)
next
  case (Cons s ss)
  from Cons.prems obtain sn i where sn: "sm_Subnet s = Some sn" and i: "sn_ID sn = Some i"
    by (auto simp: has_ids_def subnetID_def split: option.splits)
  from Cons.prems have "has_ids ss" by (simp add: has_ids_def)
  note IH = Cons.IH [OF this]
  have sid: "subnetID s = Some i" using sn i by (simp add: subnetID_def)
  have "expectedSubnets (s # ss) m = expectedSubnets ss (m(i \<mapsto> effectiveAddress s))"
    using sn i by (auto simp: effectiveAddress_def)
  also have "\<dots> = Return (\<lambda>j. case expectedAddressOf ss j of None \<Rightarrow> (m(i \<mapsto> effectiveAddress s)) j | Some v \<Rightarrow> Some v)"
    by (rule IH)
  also have "(\<lambda>j. case expectedAddressOf ss j of None \<Rightarrow> (m(i \<mapsto> effectiveAddress s)) j | Some v \<Rightarrow> Some v)
      = (\<lambda>j. case expectedAddressOf (s # ss) j of None \<Rightarrow> m j | Some v \<Rightarrow> Some v)"
    by (rule ext) (auto simp: expectedAddressOf_def sid split: list.splits)
  finally show ?case .
qed

lemma expectedSubnets_empty:
  "has_ids ms \<Longrightarrow> expectedSubnets ms Map.empty = Return (expectedAddressOf ms)"
proof -
  have "(\<lambda>i. case expectedAddressOf ms i of None \<Rightarrow> None | Some v \<Rightarrow> Some v) = expectedAddressOf ms"
    by (rule ext) (simp split: option.split)
  then show "has_ids ms \<Longrightarrow> expectedSubnets ms Map.empty = Return (expectedAddressOf ms)"
    by (simp add: expectedSubnets_general)
qed

lemma in_subnetIDs: "i \<in> set (subnetIDs ms) \<longleftrightarrow> (\<exists>s \<in> set ms. subnetID s = Some i)"
  by (force simp: subnetIDs_def List.map_filter_def)

lemma expectedAddressOf_None: "expectedAddressOf ms i = None \<longleftrightarrow> i \<notin> set (subnetIDs ms)"
proof -
  have "expectedAddressOf ms i = None \<longleftrightarrow> filter (\<lambda>s. subnetID s = Some i) ms = []"
    by (simp add: expectedAddressOf_def split: list.split)
  also have "\<dots> \<longleftrightarrow> \<not> (\<exists>s \<in> set ms. subnetID s = Some i)"
    by (simp add: filter_empty_conv)
  finally show ?thesis by (simp add: in_subnetIDs)
qed
   
lemma checkActualSubnets_ok:
  "has_ids act \<Longrightarrow>
   \<forall>s \<in> set act. \<forall>i. subnetID s = Some i \<longrightarrow> (\<exists>eIP. m i = Some eIP \<and> \<not> address_differs eIP s) \<Longrightarrow>
   checkActualSubnets m act = Return None"
proof (induction act)
  case Nil
  then show ?case by simp
next
  case (Cons s ss)
  from Cons.prems(1) obtain sn i where sn: "sm_Subnet s = Some sn" and i: "sn_ID sn = Some i"
    by (auto simp: has_ids_def subnetID_def split: option.splits)
  then have "subnetID s = Some i" by (simp add: subnetID_def)
  with Cons.prems(2) obtain eIP where "m i = Some eIP" "\<not> address_differs eIP s" by auto
  moreover from Cons have "checkActualSubnets m ss = Return None" by (simp add: has_ids_def)
  ultimately show ?case using sn i by (simp add: address_differs_def)
qed

lemma checkActualSubnets_fails:
  "has_ids act \<Longrightarrow>
   \<exists>s \<in> set act. \<exists>i. subnetID s = Some i \<and> (case m i of None \<Rightarrow> True | Some eIP \<Rightarrow> address_differs eIP s) \<Longrightarrow>
   checkActualSubnets m act = Return (Some (Errorf detaching_msg None))
   \<or> checkActualSubnets m act = Return (Some (Errorf modifying_msg None))"
proof (induction act)
  case Nil
  then show ?case by simp
next
  case (Cons s ss)
  from Cons.prems(1) obtain sn i where sn: "sm_Subnet s = Some sn" and i: "sn_ID sn = Some i"
    by (auto simp: has_ids_def subnetID_def split: option.splits)
  then have sid: "subnetID s = Some i" by (simp add: subnetID_def)
  show ?case
  proof (cases "m i")
    case None
    then show ?thesis using sn i by simp
  next
    case (Some eIP)
    show ?thesis
    proof (cases "address_differs eIP s")
      case True
      then show ?thesis using sn i Some by (simp add: address_differs_def)
    next
      case False
      with Cons.prems(2) sid Some
      have "\<exists>s \<in> set ss. \<exists>i. subnetID s = Some i \<and> (case m i of None \<Rightarrow> True | Some eIP \<Rightarrow> address_differs eIP s)"
        by auto
      moreover from Cons.prems(1) have "has_ids ss" by (simp add: has_ids_def)
      ultimately have "checkActualSubnets m ss = Return (Some (Errorf detaching_msg None))
         \<or> checkActualSubnets m ss = Return (Some (Errorf modifying_msg None))"
        by (rule Cons.IH [rotated])
      then show ?thesis using sn i Some False by (simp add: address_differs_def)
    qed
  qed
qed

lemma checkActualSubnets_detach:
  "has_ids act \<Longrightarrow>
   \<forall>s \<in> set act. \<forall>i eIP. subnetID s = Some i \<longrightarrow> m i = Some eIP \<longrightarrow> \<not> address_differs eIP s \<Longrightarrow>
   \<exists>s \<in> set act. \<exists>i. subnetID s = Some i \<and> m i = None \<Longrightarrow>
   checkActualSubnets m act = Return (Some (Errorf detaching_msg None))"
proof (induction act)
  case Nil
  then show ?case by simp
next
  case (Cons s ss)
  from Cons.prems(1) obtain sn i where sn: "sm_Subnet s = Some sn" and i: "sn_ID sn = Some i"
    by (auto simp: has_ids_def subnetID_def split: option.splits)
  then have sid: "subnetID s = Some i" by (simp add: subnetID_def)
  show ?case
  proof (cases "m i")
    case None
    then show ?thesis using sn i by simp
  next
    case (Some eIP)
    with Cons.prems(2) sid have nd: "\<not> address_differs eIP s" by simp
    from Cons.prems(3) sid Some have "\<exists>s \<in> set ss. \<exists>i. subnetID s = Some i \<and> m i = None" by auto
    moreover from Cons.prems(1) have "has_ids ss" by (simp add: has_ids_def)
    moreover from Cons.prems(2) have "\<forall>s \<in> set ss. \<forall>i eIP. subnetID s = Some i \<longrightarrow> m i = Some eIP \<longrightarrow> \<not> address_differs eIP s"
      by simp
    ultimately have "checkActualSubnets m ss = Return (Some (Errorf detaching_msg None))"
      using Cons.IH by blast
    then show ?thesis using sn i Some nd by (simp add: address_differs_def)
  qed
qed

lemma CheckChanges_update:
  "elems (SubnetMappings ch) \<noteq> [] \<Longrightarrow> has_ids (elems (SubnetMappings e)) \<Longrightarrow>
   CheckChanges (Some a) e ch =
     checkActualSubnets (expectedAddressOf (elems (SubnetMappings e))) (elems (SubnetMappings a))"
  by (simp add: CheckChanges_def expectedSubnets_empty)


lemma no_address_effective: "no_address s \<Longrightarrow> ValueOf (effectiveAddress s) = []"
  by (auto simp: no_address_def effectiveAddress_def)

lemma expectedAddressOf_no_address:
  assumes "\<forall>s \<in> set ms. subnetID s = Some i \<longrightarrow> no_address s"
    and "expectedAddressOf ms i = Some eIP"
  shows "ValueOf eIP = []"
proof -
  from assms(2) obtain s ss where f: "filter (\<lambda>s. subnetID s = Some i) ms = s # ss"
    and e: "eIP = effectiveAddress (last (s # ss))"
    by (auto simp: expectedAddressOf_def split: list.splits)
  have "last (s # ss) \<in> set (filter (\<lambda>s. subnetID s = Some i) ms)"
    unfolding f by (rule last_in_set) simp
  then have "last (s # ss) \<in> set ms" and "subnetID (last (s # ss)) = Some i" by simp_all
  with assms(1) have "no_address (last (s # ss))" by blast
  then show ?thesis unfolding e by (rule no_address_effective)
qed

lemma plain_subnets_same:
  assumes "plain_subnets act ex" and "s \<in> set act" and "subnetID s = Some i"
    and "expectedAddressOf ex i = Some eIP"
  shows "\<not> address_differs eIP s"
proof -
  have "\<forall>t \<in> set ex. subnetID t = Some i \<longrightarrow> no_address t"
  proof (intro ballI impI)
    fix t assume "t \<in> set ex" and "subnetID t = Some i"
    with assms(2,3) have "subnetID t \<in> subnetID ` set act" by force
    with assms(1) \<open>t \<in> set ex\<close> show "no_address t" by (simp add: plain_subnets_def)
  qed
  then have "ValueOf eIP = []" using assms(4) by (rule expectedAddressOf_no_address)
  moreover from assms(1,2) have "no_address s" by (simp add: plain_subnets_def)
  ultimately show ?thesis by (simp add: address_differs_def no_address_def)
qed

lemma CheckChanges_update_ok:
  assumes "elems (SubnetMappings ch) \<noteq> []"
    and "has_ids (elems (SubnetMappings a))" and "has_ids (elems (SubnetMappings e))"
    and "\<not> detached (elems (SubnetMappings a)) (elems (SubnetMappings e))"
    and "\<not> address_modified (elems (SubnetMappings a)) (elems (SubnetMappings e))"
  shows "CheckChanges (Some a) e ch = Return None"
proof -
  have "\<forall>s \<in> set (elems (SubnetMappings a)). \<forall>i. subnetID s = Some i \<longrightarrow>
      (\<exists>eIP. expectedAddressOf (elems (SubnetMappings e)) i = Some eIP \<and> \<not> address_differs eIP s)"
  proof (intro ballI allI impI)
    fix s i assume s: "s \<in> set (elems (SubnetMappings a))" and i: "subnetID s = Some i"
    then have "i \<in> set (subnetIDs (elems (SubnetMappings a)))" by (auto simp: in_subnetIDs)
    with assms(4) have "i \<in> set (subnetIDs (elems (SubnetMappings e)))" by (auto simp: detached_def)
    then obtain eIP where e: "expectedAddressOf (elems (SubnetMappings e)) i = Some eIP"
      using expectedAddressOf_None [of "elems (SubnetMappings e)" i] by (cases "expectedAddressOf (elems (SubnetMappings e)) i") auto
    with assms(5) s i have "\<not> address_differs eIP s" by (auto simp: address_modified_iff)
    with e show "\<exists>eIP. expectedAddressOf (elems (SubnetMappings e)) i = Some eIP \<and> \<not> address_differs eIP s"
      by blast
  qed
  with assms(1-3) show ?thesis
    by (simp add: CheckChanges_update checkActualSubnets_ok)
qed

lemma CheckChanges_update_fails:
  assumes "elems (SubnetMappings ch) \<noteq> []"
    and "has_ids (elems (SubnetMappings a))" and "has_ids (elems (SubnetMappings e))"
    and "detached (elems (SubnetMappings a)) (elems (SubnetMappings e))
         \<or> address_modified (elems (SubnetMappings a)) (elems (SubnetMappings e))"
  shows "CheckChanges (Some a) e ch = Return (Some (Errorf detaching_msg None))
       \<or> CheckChanges (Some a) e ch = Return (Some (Errorf modifying_msg None))"
proof -
  have "\<exists>s \<in> set (elems (SubnetMappings a)). \<exists>i. subnetID s = Some i \<and>
      (case expectedAddressOf (elems (SubnetMappings e)) i of None \<Rightarrow> True | Some eIP \<Rightarrow> address_differs eIP s)"
    using assms(4)
  proof
    assume "detached (elems (SubnetMappings a)) (elems (SubnetMappings e))"
    then obtain i where "i \<in> set (subnetIDs (elems (SubnetMappings a)))"
      and "i \<notin> set (subnetIDs (elems (SubnetMappings e)))"
      by (auto simp: detached_def)
    then obtain s where "s \<in> set (elems (SubnetMappings a))" "subnetID s = Some i"
      and "expectedAddressOf (elems (SubnetMappings e)) i = None"
      by (auto simp: in_subnetIDs expectedAddressOf_None)
    then show ?thesis by force
  next
    assume "address_modified (elems (SubnetMappings a)) (elems (SubnetMappings e))"
    then show ?thesis by (fastforce simp: address_modified_iff)
  qed
  with assms(1-3) show ?thesis
    by (simp add: CheckChanges_update checkActualSubnets_fails)
qed

lemma CheckChanges_update_detach:
  assumes "elems (SubnetMappings ch) \<noteq> []"
    and "has_ids (elems (SubnetMappings a))" and "has_ids (elems (SubnetMappings e))"
    and "plain_subnets (elems (SubnetMappings a)) (elems (SubnetMappings e))"
    and "detached (elems (SubnetMappings a)) (elems (SubnetMappings e))"
  shows "CheckChanges (Some a) e ch = Return (Some (Errorf detaching_msg None))"
proof -
  have 1: "\<forall>s \<in> set (elems (SubnetMappings a)). \<forall>i eIP. subnetID s = Some i \<longrightarrow>
      expectedAddressOf (elems (SubnetMappings e)) i = Some eIP \<longrightarrow> \<not> address_differs eIP s"
    using plain_subnets_same [OF assms(4)] by blast
  from assms(5) obtain i where "i \<in> set (subnetIDs (elems (SubnetMappings a)))"
    and "i \<notin> set (subnetIDs (elems (SubnetMappings e)))"
    by (auto simp: detached_def)
  then obtain s where "s \<in> set (elems (SubnetMappings a))" "subnetID s = Some i"
    and "expectedAddressOf (elems (SubnetMappings e)) i = None"
    by (auto simp: in_subnetIDs expectedAddressOf_None)
  then have 2: "\<exists>s \<in> set (elems (SubnetMappings a)). \<exists>i. subnetID s = Some i \<and>
      expectedAddressOf (elems (SubnetMappings e)) i = None"
    by blast
  from assms(1-3) 1 2 show ?thesis
    by (simp add: CheckChanges_update checkActualSubnets_detach)
qed

lemma plain_subnets_not_modified:
  assumes "plain_subnets act ex"
  shows "\<not> address_modified act ex"
  using plain_subnets_same [OF assms] by (auto simp: address_modified_iff)

text \<open>
  Claim C2, as amended. With an actual load balancer, a non-empty \<open>SubnetMappings\<close> delta
  and subnet IDs set on all mappings: where no actual mapping and no expected mapping of
  an actual subnet carries an address setting, \<open>CheckChanges\<close> returns nil if every actual
  subnet ID is among the expected ones, and the error that detaching subnets is not
  supported if one is not. With address settings, an actual subnet ID that is not expected
  still gives an error, the one about detaching or the one about modifying address
  settings.
\<close>

theorem subnet_additions_and_removals:
  assumes "elems (SubnetMappings ch) \<noteq> []"
    and "has_ids (elems (SubnetMappings a))" and "has_ids (elems (SubnetMappings e))"
  shows "(plain_subnets (elems (SubnetMappings a)) (elems (SubnetMappings e))
          \<and> set (subnetIDs (elems (SubnetMappings a))) \<subseteq> set (subnetIDs (elems (SubnetMappings e)))
          \<longrightarrow> CheckChanges (Some a) e ch = Return None)
       \<and> (plain_subnets (elems (SubnetMappings a)) (elems (SubnetMappings e))
          \<and> \<not> set (subnetIDs (elems (SubnetMappings a))) \<subseteq> set (subnetIDs (elems (SubnetMappings e)))
          \<longrightarrow> CheckChanges (Some a) e ch = Return (Some (Errorf detaching_msg None)))
       \<and> (\<not> set (subnetIDs (elems (SubnetMappings a))) \<subseteq> set (subnetIDs (elems (SubnetMappings e)))
          \<longrightarrow> CheckChanges (Some a) e ch = Return (Some (Errorf detaching_msg None))
            \<or> CheckChanges (Some a) e ch = Return (Some (Errorf modifying_msg None)))"
proof (intro conjI impI)
  assume h: "plain_subnets (elems (SubnetMappings a)) (elems (SubnetMappings e))
          \<and> set (subnetIDs (elems (SubnetMappings a))) \<subseteq> set (subnetIDs (elems (SubnetMappings e)))"
  then have "\<not> detached (elems (SubnetMappings a)) (elems (SubnetMappings e))"
    by (auto simp: detached_def)
  moreover from h have "\<not> address_modified (elems (SubnetMappings a)) (elems (SubnetMappings e))"
    by (intro plain_subnets_not_modified) simp
  ultimately show "CheckChanges (Some a) e ch = Return None"
    using assms by (intro CheckChanges_update_ok)
next
  assume h: "plain_subnets (elems (SubnetMappings a)) (elems (SubnetMappings e))
          \<and> \<not> set (subnetIDs (elems (SubnetMappings a))) \<subseteq> set (subnetIDs (elems (SubnetMappings e)))"
  then have "detached (elems (SubnetMappings a)) (elems (SubnetMappings e))"
    by (auto simp: detached_def)
  with h assms show "CheckChanges (Some a) e ch = Return (Some (Errorf detaching_msg None))"
    by (intro CheckChanges_update_detach) simp_all
next
  assume "\<not> set (subnetIDs (elems (SubnetMappings a))) \<subseteq> set (subnetIDs (elems (SubnetMappings e)))"
  then have "detached (elems (SubnetMappings a)) (elems (SubnetMappings e))"
    by (auto simp: detached_def)
  with assms show "CheckChanges (Some a) e ch = Return (Some (Errorf detaching_msg None))
            \<or> CheckChanges (Some a) e ch = Return (Some (Errorf modifying_msg None))"
    by (intro CheckChanges_update_fails) simp_all
qed

lemmas ex_defs = lb_with_def lb_empty_def plain_mapping_def private_mapping_def elems_def ValueOf_def
  has_ids_def subnetID_def subnetIDs_def List.map_filter_def no_address_def plain_subnets_def
  detaching_msg_def modifying_msg_def

theorem subnet_additions_and_removals_witness:
  "plain_subnets [plain_mapping ''A'', plain_mapping ''B'']
      [plain_mapping ''A'', plain_mapping ''B'', private_mapping ''C'' ''10.0.3.7'']
   \<and> CheckChanges (Some (lb_with [plain_mapping ''A'', plain_mapping ''B'']))
      (lb_with [plain_mapping ''A'', plain_mapping ''B'', private_mapping ''C'' ''10.0.3.7''])
      (lb_with [plain_mapping ''A'', plain_mapping ''B'', private_mapping ''C'' ''10.0.3.7'']) = Return None
   \<and> CheckChanges (Some (lb_with [plain_mapping ''A'', plain_mapping ''B'']))
      (lb_with [plain_mapping ''A'', plain_mapping ''C''])
      (lb_with [plain_mapping ''A'', plain_mapping ''C''])
       = Return (Some (Errorf detaching_msg None))
   \<and> \<not> set (subnetIDs [private_mapping ''A'' ''10.0.0.5'', plain_mapping ''B''])
         \<subseteq> set (subnetIDs [private_mapping ''A'' ''10.0.0.9''])
   \<and> (CheckChanges (Some (lb_with [private_mapping ''A'' ''10.0.0.5'', plain_mapping ''B'']))
        (lb_with [private_mapping ''A'' ''10.0.0.9''])
        (lb_with [private_mapping ''A'' ''10.0.0.9''])
        = Return (Some (Errorf detaching_msg None))
      \<or> CheckChanges (Some (lb_with [private_mapping ''A'' ''10.0.0.5'', plain_mapping ''B'']))
        (lb_with [private_mapping ''A'' ''10.0.0.9''])
        (lb_with [private_mapping ''A'' ''10.0.0.9''])
        = Return (Some (Errorf modifying_msg None)))"
  using subnet_additions_and_removals [of
      "lb_with [plain_mapping ''A'', plain_mapping ''B'', private_mapping ''C'' ''10.0.3.7'']"
      "lb_with [plain_mapping ''A'', plain_mapping ''B'']"
      "lb_with [plain_mapping ''A'', plain_mapping ''B'', private_mapping ''C'' ''10.0.3.7'']"]
    subnet_additions_and_removals [of "lb_with [plain_mapping ''A'', plain_mapping ''C'']"
      "lb_with [plain_mapping ''A'', plain_mapping ''B'']"
      "lb_with [plain_mapping ''A'', plain_mapping ''C'']"]
    subnet_additions_and_removals [of "lb_with [private_mapping ''A'' ''10.0.0.9'']"
      "lb_with [private_mapping ''A'' ''10.0.0.5'', plain_mapping ''B'']"
      "lb_with [private_mapping ''A'' ''10.0.0.9'']"]
  by (simp add: ex_defs)

text \<open>
  Claim C2 as stated fails where a subnet before the removed one changes its address:
  the loop reports the first actual mapping that fails, here as a modification.
\<close>

theorem removal_reported_as_modification:
  "\<not> set (subnetIDs [private_mapping ''A'' ''10.0.0.5'', plain_mapping ''B''])
       \<subseteq> set (subnetIDs [private_mapping ''A'' ''10.0.0.9''])
   \<and> CheckChanges (Some (lb_with [private_mapping ''A'' ''10.0.0.5'', plain_mapping ''B'']))
        (lb_with [private_mapping ''A'' ''10.0.0.9''])
        (lb_with [private_mapping ''A'' ''10.0.0.9''])
      = Return (Some (Errorf modifying_msg None))
   \<and> modifying_msg \<noteq> detaching_msg"
  by (simp add: ex_defs CheckChanges_def)

text \<open>
  Claim C4, as amended. With an actual instance, a delta that sets \<open>Name\<close>, \<open>Zone\<close>,
  \<open>CommercialType\<close> or \<open>Image\<close> gives the \<open>CannotChangeField\<close> error of the first of them.
  With an actual load balancer, a non-empty \<open>SubnetMappings\<close> delta that detaches a subnet
  or modifies an address setting gives a plain error, never nil: the one about detaching
  subnets or the one about modifying address settings.
\<close>

theorem immutable_fields_rejected:
  "(actual \<noteq> None \<and> (inst_Name xch \<noteq> None \<or> inst_Zone xch \<noteq> None
        \<or> inst_CommercialType xch \<noteq> None \<or> inst_Image xch \<noteq> None)
      \<longrightarrow> Instance_CheckChanges actual x xch \<in> {Some (CannotChangeField ''Name''),
            Some (CannotChangeField ''Zone''), Some (CannotChangeField ''CommercialType''),
            Some (CannotChangeField ''Image'')})
   \<and> (actual \<noteq> None \<and> inst_Name xch \<noteq> None
      \<longrightarrow> Instance_CheckChanges actual x xch = Some (CannotChangeField ''Name''))
   \<and> (actual \<noteq> None \<and> inst_Name xch = None \<and> inst_Zone xch \<noteq> None
      \<longrightarrow> Instance_CheckChanges actual x xch = Some (CannotChangeField ''Zone''))
   \<and> (actual \<noteq> None \<and> inst_Name xch = None \<and> inst_Zone xch = None
        \<and> inst_CommercialType xch \<noteq> None
      \<longrightarrow> Instance_CheckChanges actual x xch = Some (CannotChangeField ''CommercialType''))
   \<and> (actual \<noteq> None \<and> inst_Name xch = None \<and> inst_Zone xch = None
        \<and> inst_CommercialType xch = None \<and> inst_Image xch \<noteq> None
      \<longrightarrow> Instance_CheckChanges actual x xch = Some (CannotChangeField ''Image''))
   \<and> (elems (SubnetMappings ch) \<noteq> [] \<and> has_ids (elems (SubnetMappings a))
        \<and> has_ids (elems (SubnetMappings e))
        \<and> (detached (elems (SubnetMappings a)) (elems (SubnetMappings e))
            \<or> address_modified (elems (SubnetMappings a)) (elems (SubnetMappings e)))
      \<longrightarrow> CheckChanges (Some a) e ch = Return (Some (Errorf detaching_msg None))
            \<or> CheckChanges (Some a) e ch = Return (Some (Errorf modifying_msg None)))"
proof (intro conjI impI)
  assume "elems (SubnetMappings ch) \<noteq> [] \<and> has_ids (elems (SubnetMappings a))
        \<and> has_ids (elems (SubnetMappings e))
        \<and> (detached (elems (SubnetMappings a)) (elems (SubnetMappings e))
            \<or> address_modified (elems (SubnetMappings a)) (elems (SubnetMappings e)))"
  then show "CheckChanges (Some a) e ch = Return (Some (Errorf detaching_msg None))
            \<or> CheckChanges (Some a) e ch = Return (Some (Errorf modifying_msg None))"
    by (intro CheckChanges_update_fails) simp_all
qed (auto simp: Instance_CheckChanges_def)

text \<open>
  Claim C4 as stated fails for the load balancer: the error for a detached subnet is a
  plain error with a message, not a \<open>CannotChangeField\<close> error.
\<close>

theorem detaching_is_a_plain_error:
  "detached [plain_mapping ''A'', plain_mapping ''B''] [plain_mapping ''A'', plain_mapping ''C'']
   \<and> CheckChanges (Some (lb_with [plain_mapping ''A'', plain_mapping ''B'']))
        (lb_with [plain_mapping ''A'', plain_mapping ''C''])
        (lb_with [plain_mapping ''A'', plain_mapping ''C''])
      = Return (Some (Errorf detaching_msg None))
   \<and> CheckChanges (Some (lb_with [plain_mapping ''A'', plain_mapping ''B'']))
        (lb_with [plain_mapping ''A'', plain_mapping ''C''])
        (lb_with [plain_mapping ''A'', plain_mapping ''C''])
      \<noteq> Return (Some (CannotChangeField ''SubnetMappings''))"
  by (simp add: ex_defs CheckChanges_def detached_def)

theorem immutable_fields_rejected_witness:
  "Instance_CheckChanges (Some instance_nodes) instance_nodes (instance_empty \<lparr> inst_Name := Some ''nodes-2'' \<rparr>)
      = Some (CannotChangeField ''Name'')
   \<and> Instance_CheckChanges (Some instance_nodes) instance_nodes (instance_empty \<lparr> inst_Zone := Some ''fr-par-2'' \<rparr>)
      = Some (CannotChangeField ''Zone'')
   \<and> Instance_CheckChanges (Some instance_nodes) instance_nodes
        (instance_empty \<lparr> inst_CommercialType := Some ''DEV1-L'' \<rparr>)
      = Some (CannotChangeField ''CommercialType'')
   \<and> Instance_CheckChanges (Some instance_nodes) instance_nodes (instance_empty \<lparr> inst_Image := Some ''debian'' \<rparr>)
      = Some (CannotChangeField ''Image'')
   \<and> address_modified [private_mapping ''A'' ''10.0.0.5''] [private_mapping ''A'' ''10.0.0.9'']
   \<and> CheckChanges (Some (lb_with [private_mapping ''A'' ''10.0.0.5'']))
        (lb_with [private_mapping ''A'' ''10.0.0.9''])
        (lb_with [private_mapping ''A'' ''10.0.0.9''])
      = Return (Some (Errorf modifying_msg None))
   \<and> detached [plain_mapping ''A'', plain_mapping ''B''] [plain_mapping ''A'']
   \<and> CheckChanges (Some (lb_with [plain_mapping ''A'', plain_mapping ''B'']))
        (lb_with [plain_mapping ''A'']) (lb_with [plain_mapping ''A''])
      = Return (Some (Errorf detaching_msg None))"
  using immutable_fields_rejected [of "Some instance_nodes" "instance_empty \<lparr> inst_Image := Some ''debian'' \<rparr>"
      instance_nodes "lb_with [private_mapping ''A'' ''10.0.0.9'']"
      "lb_with [private_mapping ''A'' ''10.0.0.5'']" "lb_with [private_mapping ''A'' ''10.0.0.9'']"]
    immutable_fields_rejected [of "Some instance_nodes" "instance_empty \<lparr> inst_Name := Some ''nodes-2'' \<rparr>"
      instance_nodes "lb_with [plain_mapping ''A'']"
      "lb_with [plain_mapping ''A'', plain_mapping ''B'']" "lb_with [plain_mapping ''A'']"]
    immutable_fields_rejected [of "Some instance_nodes" "instance_empty \<lparr> inst_Zone := Some ''fr-par-2'' \<rparr>"
      instance_nodes "lb_with [plain_mapping ''A'']"
      "lb_with [plain_mapping ''A'', plain_mapping ''B'']" "lb_with [plain_mapping ''A'']"]
    immutable_fields_rejected [of "Some instance_nodes" "instance_empty \<lparr> inst_CommercialType := Some ''DEV1-L'' \<rparr>"
      instance_nodes "lb_with [plain_mapping ''A'']"
      "lb_with [plain_mapping ''A'', plain_mapping ''B'']" "lb_with [plain_mapping ''A'']"]
  by (simp add: ex_defs CheckChanges_def address_modified_def detached_def expectedAddressOf_def
      effectiveAddress_def address_differs_def instance_nodes_def instance_empty_def
      Instance_CheckChanges_def)
section \<open>Normalize: proofs\<close>

lemma same_slice_sort_key:
  assumes "same_slice s t" and "distinct (map f (elems s))"
  shows "map_option (sort_key f) s = map_option (sort_key f) t"
proof (cases s)
  case None
  with assms show ?thesis by (simp add: same_slice_def)
next
  case (Some xs)
  with assms obtain ys where t: "t = Some ys" and m: "mset xs = mset ys"
    by (cases t) (auto simp: same_slice_def elems_def)
  from assms Some have "inj_on f (set xs)"
    by (simp add: elems_def distinct_map)
  with m have "sort_key f xs = sort_key f ys"
    by (rule sort_key_eq_sort_key)
  with Some t show ?thesis by simp
qed

lemma same_slice_sortSubnetMappingsByName:
  assumes "same_slice s t" and "distinct (map subnetMappingName (elems s))"
  shows "sortSubnetMappingsByName s = sortSubnetMappingsByName t"
proof (cases s)
  case None
  with assms show ?thesis by (simp add: same_slice_def)
next
  case (Some xs)
  with assms obtain ys where t: "t = Some ys" and m: "mset xs = mset ys"
    by (cases t) (auto simp: same_slice_def elems_def)
  from m have l: "length xs = length ys" and st: "set xs = set ys"
    by (auto dest: mset_eq_length mset_eq_setD)
  from assms(1) assms(2) have "map_option (sort_key subnetMappingName) s = map_option (sort_key subnetMappingName) t"
    by (rule same_slice_sort_key)
  with Some t have "sort_key subnetMappingName xs = sort_key subnetMappingName ys" by simp
  with Some t l st show ?thesis by (simp add: sortSubnetMappingsByName_def)
qed

lemma normalize_order_independent:
  assumes "same_sets e1 e2" and "distinct_keys e1"
  shows "Normalize cluster e1 = Normalize cluster e2"
proof -
  from assms have 1: "sortSubnetMappingsByName (SubnetMappings e1) = sortSubnetMappingsByName (SubnetMappings e2)"
    by (intro same_slice_sortSubnetMappingsByName) (simp_all add: same_sets_def distinct_keys_def)
  from assms have 2: "sortListenersByPort (Listeners e1) = sortListenersByPort (Listeners e2)"
    unfolding sortListenersByPort_def
    by (intro same_slice_sort_key) (simp_all add: same_sets_def distinct_keys_def)
  from assms have 3: "sortTargetGroupsByName (TargetGroups e1) = sortTargetGroupsByName (TargetGroups e2)"
    unfolding sortTargetGroupsByName_def
    by (intro same_slice_sort_key) (simp_all add: same_sets_def distinct_keys_def)
  from assms(1) have 4: "e2 = e1 \<lparr> SubnetMappings := SubnetMappings e2, Listeners := Listeners e2,
               TargetGroups := TargetGroups e2 \<rparr>"
    by (simp add: same_sets_def)
  show ?thesis
    unfolding Normalize_def 1 2 3
    by (subst (3) 4) (simp split: outcome.splits)
qed

lemma sort_idem: "sort_key f (sort_key f xs) = sort_key f xs"
  by (simp add: sort_key_id_if_sorted)

lemma sortSubnetMappingsByName_idem:
  "sortSubnetMappingsByName s = Return t \<Longrightarrow> sortSubnetMappingsByName t = Return t"
  by (cases s) (auto simp: sortSubnetMappingsByName_def sort_idem split: if_splits)

lemma normalize_idempotent:
  assumes "Normalize cluster e = Return e'"
  shows "Normalize cluster e' = Return e'"
proof -
  from assms obtain sms ip where
    s: "sortSubnetMappingsByName (SubnetMappings e) = Return sms" and
    i: "scanSubnetMappings cluster (elems sms) (Some ''dualstack'') = Return ip" and
    e': "e' = e \<lparr> SubnetMappings := sms, Listeners := sortListenersByPort (Listeners e),
                 TargetGroups := sortTargetGroupsByName (TargetGroups e), IpAddressType := ip \<rparr>"
    by (auto simp: Normalize_def split: outcome.splits)
  have l: "sortListenersByPort (sortListenersByPort x) = sortListenersByPort x" for x
    by (cases x) (simp_all add: sortListenersByPort_def sort_idem)
  have t: "sortTargetGroupsByName (sortTargetGroupsByName x) = sortTargetGroupsByName x" for x
    by (cases x) (simp_all add: sortTargetGroupsByName_def sort_idem)
  from s have s': "sortSubnetMappingsByName sms = Return sms"
    by (rule sortSubnetMappingsByName_idem)
  show ?thesis
    unfolding Normalize_def e' by (simp add: s' i l t)
qed

text \<open>
  Claim C6, as amended. For tasks whose sub-resources have pairwise distinct sort keys
  (port of a listener, name of a subnet, name of a target group), two orderings of the
  same subnet mappings, listeners and target groups are normalized to the same task, with
  identical sequences. On every task, normalizing the result of \<open>Normalize\<close> again
  changes nothing.
\<close>

theorem normalize_canonical:
  "(same_sets e1 e2 \<and> distinct_keys e1 \<longrightarrow> Normalize cluster e1 = Normalize cluster e2)
   \<and> (Normalize cluster e = Return e' \<longrightarrow> Normalize cluster e' = Return e')"
  using normalize_order_independent [of e1 e2 cluster] normalize_idempotent [of cluster e e']
  by blast

lemmas normalize_ex_defs = lb_listeners_def lb_with_def lb_empty_def plain_mapping_def listener_def
  elems_def ValueOf_def same_sets_def same_slice_def distinct_keys_def Normalize_def
  sortSubnetMappingsByName_def sortListenersByPort_def sortTargetGroupsByName_def
  subnetMappingName_def

theorem normalize_canonical_witness:
  "same_sets (lb_listeners [listener 8443 ''kops'', listener 443 ''api''])
             (lb_listeners [listener 443 ''api'', listener 8443 ''kops''])
   \<and> distinct_keys (lb_listeners [listener 8443 ''kops'', listener 443 ''api''])
   \<and> Normalize [] (lb_listeners [listener 8443 ''kops'', listener 443 ''api''])
       = Normalize [] (lb_listeners [listener 443 ''api'', listener 8443 ''kops''])
   \<and> Normalize [] (lb_listeners [listener 8443 ''kops'', listener 443 ''api''])
       = Return ((lb_listeners [listener 443 ''api'', listener 8443 ''kops''])
                   \<lparr> IpAddressType := Some ''dualstack'' \<rparr>)
   \<and> Normalize [] ((lb_listeners [listener 443 ''api'', listener 8443 ''kops''])
                       \<lparr> IpAddressType := Some ''dualstack'' \<rparr>)
       = Return ((lb_listeners [listener 443 ''api'', listener 8443 ''kops''])
                   \<lparr> IpAddressType := Some ''dualstack'' \<rparr>)"
  using normalize_canonical [of "lb_listeners [listener 8443 ''kops'', listener 443 ''api'']"
      "lb_listeners [listener 443 ''api'', listener 8443 ''kops'']" "[]"
      "lb_listeners [listener 8443 ''kops'', listener 443 ''api'']"
      "(lb_listeners [listener 443 ''api'', listener 8443 ''kops''])
         \<lparr> IpAddressType := Some ''dualstack'' \<rparr>"]
  by (simp add: normalize_ex_defs)

text \<open>
  Claim C6 as stated fails where two listeners share a port: the stable sort keeps them
  in the order of the input, so two orderings of the same two listeners stay different.
\<close>

theorem normalize_keeps_order_of_equal_ports:
  "same_sets (lb_listeners [listener 443 ''api'', listener 443 ''kops''])
             (lb_listeners [listener 443 ''kops'', listener 443 ''api''])
   \<and> Normalize [] (lb_listeners [listener 443 ''api'', listener 443 ''kops''])
       \<noteq> Normalize [] (lb_listeners [listener 443 ''kops'', listener 443 ''api''])"
  by (simp add: normalize_ex_defs)
section \<open>Rendering, lookup and deletion: proofs\<close>




















text \<open>
  Claim C10. Where the number of listeners differs from the number of target groups,
  \<open>RenderAWS\<close> returns an error and leaves the world as it was: it has made no call, the
  state of the cloud is unchanged, and so is the expected task.
\<close>

theorem render_checks_counts_first:
  "length (elems (Listeners e)) \<noteq> length (elems (TargetGroups e)) \<Longrightarrow>
   RenderAWS cloud a e changes w
     = ((Return (Some (Errorf ''nlb listeners and target groups do not match'' None)), e), w)"
  by (simp add: RenderAWS_def)

lemmas render_ex_defs = lb_api_def lb_with_def lb_empty_def plain_mapping_def listener_def
  elems_def ValueOf_def demo_cloud_def demo_lb_def

theorem render_checks_counts_first_witness:
  "length (elems (Listeners (lb_api \<lparr> TargetGroups := Some [] \<rparr>)))
     \<noteq> length (elems (TargetGroups (lb_api \<lparr> TargetGroups := Some [] \<rparr>)))
   \<and> RenderAWS demo_cloud None (lb_api \<lparr> TargetGroups := Some [] \<rparr>) lb_empty (0, [])
     = ((Return (Some (Errorf ''nlb listeners and target groups do not match'' None)),
         lb_api \<lparr> TargetGroups := Some [] \<rparr>), (0, []))"
  using render_checks_counts_first [of "lb_api \<lparr> TargetGroups := Some [] \<rparr>" demo_cloud None lb_empty "(0, [])"]
  by (simp add: render_ex_defs)


lemma demo_cloud_simps:
  "DescribeLoadBalancersPages demo_cloud names s = (([[demo_lb]], None), s)"
  "SetIpAddressType demo_cloud t a s = (None, Suc s)"
  "SetSubnets demo_cloud arn ms s = (None, Suc s)"
  "DescribeListeners demo_cloud a s = (Inr [\<lparr> el_ListenerArn = Some ''arn:listener'' \<rparr>], s)"
  "DeleteListener demo_cloud a s = (None, Suc s)"
  "CreateListener demo_cloud input s = (None, Suc s)"
  "AddELBV2Tags demo_cloud arn tags s = ((None, False), s)"
  "RemoveELBV2Tags demo_cloud arn tags s = ((None, False), s)"
  "modifyLoadBalancerAttributes demo_cloud act e ch arn s = ((None, False), s)"
  "FindELBByNameTag demo_cloud name s = (Inr (Some demo_clb), s)"
  by (simp_all add: demo_cloud_def)








text \<open>
  Claim C5, at the input where the code departs from it. When the listing fails with the
  provider's code \<open>LoadBalancerNotFound\<close>, \<open>findNetworkLoadBalancerByLoadBalancerName\<close>
  returns an error and not a nil load balancer with a nil error:
  \<open>describeNetworkLoadBalancers\<close> has already formatted the provider's error into a plain
  error, so the test of the code in the caller never succeeds.
\<close>

theorem not_found_code_is_propagated:
  "DescribeLoadBalancersPages cloud [name] (fst w)
      = ((pages, Some (AwsError ''LoadBalancerNotFound'' msg)), s') \<Longrightarrow>
   fst (findNetworkLoadBalancerByLoadBalancerName cloud name w)
      = Inl (Errorf ''error listing NLBs''
               (Some (Errorf ''error listing NLBs'' (Some (AwsError ''LoadBalancerNotFound'' msg)))))"
  by (simp add: findNetworkLoadBalancerByLoadBalancerName_def describeNetworkLoadBalancers_def invoke_def)

theorem not_found_code_is_propagated_witness:
  "DescribeLoadBalancersPages not_found_cloud [''api-nlb''] (fst (0, []))
      = (([], Some (AwsError ''LoadBalancerNotFound'' ''One or more load balancers not found'')), 0)
   \<and> fst (findNetworkLoadBalancerByLoadBalancerName not_found_cloud ''api-nlb'' (0, []))
      = Inl (Errorf ''error listing NLBs''
               (Some (Errorf ''error listing NLBs''
                  (Some (AwsError ''LoadBalancerNotFound'' ''One or more load balancers not found'')))))
   \<and> fst (findNetworkLoadBalancerByLoadBalancerName not_found_cloud ''api-nlb'' (0, [])) \<noteq> Inr None"
  using not_found_code_is_propagated [of not_found_cloud "''api-nlb''" "(0, [])" "[]"
      "''One or more load balancers not found''" 0]
  by (simp add: not_found_cloud_def)

text \<open>
  What holds of the lookups: every error of the listing is returned as an error, and an
  empty listing, a nil load balancer of the tag lookup and an empty list of servers give
  nil without an error.
\<close>

lemma lookup_error_never_nil:
  "snd (fst (DescribeLoadBalancersPages cloud [name] (fst w))) \<noteq> None \<Longrightarrow>
   \<exists>e. fst (findNetworkLoadBalancerByLoadBalancerName cloud name w) = Inl e"
  by (auto simp: findNetworkLoadBalancerByLoadBalancerName_def describeNetworkLoadBalancers_def invoke_def
      split: prod.splits option.splits)

lemma empty_listing_is_nil:
  "DescribeLoadBalancersPages cloud [name] (fst w) = ((pages, None), s') \<Longrightarrow>
   filter (\<lambda>lb. ValueOf (lb_LoadBalancerName lb) = name) (concat pages) = [] \<Longrightarrow>
   fst (findNetworkLoadBalancerByLoadBalancerName cloud name w) = Inr None"
  by (simp add: findNetworkLoadBalancerByLoadBalancerName_def describeNetworkLoadBalancers_def invoke_def)

lemma Find_nil:
  "FindELBV2ByNameTag cloud (tagValue (Tags e) ''Name'') (fst w) = (Inr None, s') \<Longrightarrow>
   fst (Find cloud found e w) = Inr None"
  by (simp add: Find_def invoke_def)

lemma Instance_Find_nil:
  "ListServers cloud (inst_Name s) tags (fst w) = (Inr [], s') \<Longrightarrow>
   tags = [TagClusterName @ ''='' @ ClusterName (inst_Tags s)] @
          (case inst_Name s of None \<Rightarrow> [] | Some n \<Rightarrow> [TagInstanceGroup @ ''='' @ n]) \<Longrightarrow>
   fst (Instance_Find cloud s w) = Inr None"
  by (simp add: Instance_Find_def GetClusterServers_def invoke_def Let_def)

text \<open>
  Claim C3, at the input where the code departs from it. With \<open>CLBName\<close> set and the
  classic load balancer found, \<open>FindDeletions\<close> returns its deletion whatever instances
  are registered with it.
\<close>

theorem deletion_scheduled_with_targets:
  "CLBName e = Some n \<Longrightarrow> FindELBByNameTag cloud n (fst w) = (Inr (Some lb), s') \<Longrightarrow>
   fst (FindDeletions cloud e w) = Inr [\<lparr> del_LoadBalancerName = elb_LoadBalancerName lb \<rparr>]"
  by (simp add: FindDeletions_def invoke_def ValueOf_def)

theorem deletion_scheduled_with_targets_witness:
  "CLBName lb_api = Some ''api-clb''
   \<and> FindELBByNameTag demo_cloud ''api-clb'' (fst (0, [])) = (Inr (Some demo_clb), 0)
   \<and> elb_Instances demo_clb = [''i-0abc'']
   \<and> fst (FindDeletions demo_cloud lb_api (0, [])) = Inr [\<lparr> del_LoadBalancerName = Some ''api-clb'' \<rparr>]"
  using deletion_scheduled_with_targets [of lb_api "''api-clb''" demo_cloud "(0, [])" demo_clb 0]
  by (simp add: lb_api_def demo_cloud_simps demo_clb_def)

text \<open>
  Claim C8. The backoff policies for reads, writes and deletes are pairwise distinct; the
  read policy has more steps than the delete policy (10 against 4) and a smaller factor
  (1.5 against 5), so no delay of a read retry is longer than that of the delete retry of
  the same rank.
\<close>

theorem backoff_policies:
  "readBackoff \<noteq> writeBackoff \<and> writeBackoff \<noteq> deleteBackoff \<and> readBackoff \<noteq> deleteBackoff
   \<and> Steps readBackoff = 10 \<and> Steps deleteBackoff = 4 \<and> Steps deleteBackoff < Steps readBackoff
   \<and> Factor readBackoff = 15 / 10 \<and> Factor deleteBackoff = 5
   \<and> Factor readBackoff < Factor deleteBackoff
   \<and> delay readBackoff k \<le> delay deleteBackoff k"
proof -
  have "(15 / 10 :: real) ^ k \<le> 5 ^ k" by (rule power_mono) simp_all
  then show ?thesis
    by (simp add: readBackoff_def writeBackoff_def deleteBackoff_def delay_def mult_left_mono)
qed

theorem backoff_policies_witness:
  "Steps deleteBackoff < Steps readBackoff \<and> Factor readBackoff < Factor deleteBackoff
   \<and> delay readBackoff 3 \<le> delay deleteBackoff 3
   \<and> delay readBackoff 3 = 3375000000 \<and> delay deleteBackoff 3 = 125000000000"
  using backoff_policies [of 3]
  by (simp add: readBackoff_def deleteBackoff_def delay_def Second_def power3_eq_cube)

end
